theory Spec2Isabelle
  imports
    Main
    "HOL-Library.Word"
    "HOL-Library.Char_ord"
    "HOL-Library.List_Lexorder"
    "HOL-Library.AList"
    "HOL-Library.Log_Nat"
begin

unbundle bit_operations_syntax

section \<open>Package goflagconfig: typed settings, a registry and a key/value file\<close>

text \<open>
  This theory embeds \<^verbatim>\<open>config.go\<close>. Go strings are byte sequences and are modelled as
  \<^typ>\<open>string\<close>; the Go types \<^verbatim>\<open>int\<close> and \<^verbatim>\<open>uint\<close> are taken at their 64-bit width;
  a \<^verbatim>\<open>float64\<close> and a \<^verbatim>\<open>time.Duration\<close> are stored as their 64-bit pattern.
  A Go map is an association list with distinct keys (its iteration order is unspecified
  in Go, and the code sorts before it visits). Pointers are addresses into explicit
  stores, and every method takes the state and returns the new one.
\<close>

subsection \<open>Errors\<close>

text \<open>
  \<^verbatim>\<open>*strconv.NumError\<close> carries the function name, the offending input and the cause;
  \<open>errorString\<close> is the type behind \<^verbatim>\<open>errors.New\<close>.
\<close>

datatype errkind = ErrSyntax | ErrRange | ErrBase nat | ErrBitSize nat

datatype error = NumError string string errkind | errorString string

subsection \<open>The functions of package strconv that the values call\<close>

text \<open>
  The functions below follow the Go standard library (strconv, version 1.13 and later,
  where base 0 also accepts the prefixes 0b and 0o and underscores between digits).
\<close>

definition ParseBool :: "string \<Rightarrow> bool \<times> error option" where
  "ParseBool str =
     (if str \<in> set [''1'', ''t'', ''T'', ''true'', ''TRUE'', ''True''] then (True, None)
      else if str \<in> set [''0'', ''f'', ''F'', ''false'', ''FALSE'', ''False''] then (False, None)
      else (False, Some (NumError ''ParseBool'' str ErrSyntax)))"

definition FormatBool :: "bool \<Rightarrow> string" where
  "FormatBool b = (if b then ''true'' else ''false'')"

definition byte :: "char \<Rightarrow> nat" where
  "byte c = of_char c"

text \<open>\<^verbatim>\<open>lower(c) = c | ('x' - 'X')\<close>\<close>

definition lower :: "char \<Rightarrow> nat" where
  "lower c = byte c OR 32"

definition is_digit :: "char \<Rightarrow> bool" where
  "is_digit c = (48 \<le> byte c \<and> byte c \<le> 57)"

definition is_letter :: "char \<Rightarrow> bool" where
  "is_letter c = (97 \<le> lower c \<and> lower c \<le> 122)"

text \<open>
  \<^verbatim>\<open>underscoreOK\<close>: underscores must separate digits (a base prefix counts as a digit).
  \<open>saw\<close> is the last character class seen: \<open>^\<close> beginning, \<open>0\<close> digit, \<open>_\<close> underscore,
  \<open>!\<close> anything else.
\<close>

fun underscoreOK_loop :: "bool \<Rightarrow> char \<Rightarrow> string \<Rightarrow> bool" where
  "underscoreOK_loop hex saw [] = (saw \<noteq> CHR ''_'')"
| "underscoreOK_loop hex saw (c # cs) =
     (if is_digit c \<or> (hex \<and> 97 \<le> lower c \<and> lower c \<le> 102)
      then underscoreOK_loop hex (CHR ''0'') cs
      else if c = CHR ''_''
      then (if saw \<noteq> CHR ''0'' then False else underscoreOK_loop hex (CHR ''_'') cs)
      else if saw = CHR ''_'' then False
      else underscoreOK_loop hex (CHR ''!'') cs)"

definition underscoreOK :: "string \<Rightarrow> bool" where
  "underscoreOK s0 =
     (let s = (if 1 \<le> length s0 \<and> (hd s0 = CHR ''-'' \<or> hd s0 = CHR ''+'') then tl s0 else s0)
      in if 2 \<le> length s \<and> s ! 0 = CHR ''0''
            \<and> (lower (s ! 1) = 98 \<or> lower (s ! 1) = 111 \<or> lower (s ! 1) = 120)
         then underscoreOK_loop (lower (s ! 1) = 120) (CHR ''0'') (drop 2 s)
         else underscoreOK_loop False (CHR ''^'') s)"

text \<open>
  The digit loop of \<^verbatim>\<open>ParseUint\<close>. \<open>n\<close> is a \<^verbatim>\<open>uint64\<close>: the product cannot wrap
  (it is guarded by \<open>cutoff\<close>), the sum can, and the wrap-around is written out.
  \<open>Inr\<close> is the early \<^verbatim>\<open>return\<close> with the value and the cause of the error.
\<close>

fun ParseUint_loop ::
  "nat \<Rightarrow> bool \<Rightarrow> nat \<Rightarrow> nat \<Rightarrow> string \<Rightarrow> nat \<Rightarrow> bool \<Rightarrow> (nat \<times> bool) + (nat \<times> errkind)" where
  "ParseUint_loop base base0 cutoff maxVal [] n underscores = Inl (n, underscores)"
| "ParseUint_loop base base0 cutoff maxVal (c # cs) n underscores =
     (if c = CHR ''_'' \<and> base0 then ParseUint_loop base base0 cutoff maxVal cs n True
      else if \<not> (is_digit c \<or> is_letter c) then Inr (0, ErrSyntax)
      else
        let d = (if is_digit c then byte c - 48 else lower c - 97 + 10) in
        if d \<ge> base then Inr (0, ErrSyntax)
        else if n \<ge> cutoff then Inr (maxVal, ErrRange)
        else
          let n' = n * base; n1 = (n' + d) mod 2 ^ 64 in
          if n1 < n' \<or> n1 > maxVal then Inr (maxVal, ErrRange)
          else ParseUint_loop base base0 cutoff maxVal cs n1 underscores)"

definition maxUint64 :: nat where
  "maxUint64 = 2 ^ 64 - 1"

definition ParseUint :: "string \<Rightarrow> nat \<Rightarrow> nat \<Rightarrow> 64 word \<times> error option" where
  "ParseUint s0 base bitSize =
     (if s0 = [] then (0, Some (NumError ''ParseUint'' s0 ErrSyntax))
      else if \<not> (base = 0 \<or> (2 \<le> base \<and> base \<le> 36))
      then (0, Some (NumError ''ParseUint'' s0 (ErrBase base)))
      else
        let base0 = (base = 0);
            (base', s) =
              (if 2 \<le> base \<and> base \<le> 36 then (base, s0)
               else if hd s0 = CHR ''0'' then
                 (if 3 \<le> length s0 \<and> lower (s0 ! 1) = 98 then (2, drop 2 s0)
                  else if 3 \<le> length s0 \<and> lower (s0 ! 1) = 111 then (8, drop 2 s0)
                  else if 3 \<le> length s0 \<and> lower (s0 ! 1) = 120 then (16, drop 2 s0)
                  else (8, drop 1 s0))
               else (10, s0))
        in
        if bitSize > 64 then (0, Some (NumError ''ParseUint'' s0 (ErrBitSize bitSize)))
        else
          let bitSize' = (if bitSize = 0 then 64 else bitSize);
              cutoff = maxUint64 div base' + 1;
              maxVal = 2 ^ bitSize' - 1
          in
          case ParseUint_loop base' base0 cutoff maxVal s 0 False of
            Inr (v, k) \<Rightarrow> (of_nat v, Some (NumError ''ParseUint'' s0 k))
          | Inl (n, underscores) \<Rightarrow>
              if underscores \<and> \<not> underscoreOK s0
              then (0, Some (NumError ''ParseUint'' s0 ErrSyntax))
              else (of_nat n, None))"

text \<open>
  \<^verbatim>\<open>ParseInt\<close>: the sign is picked off, the magnitude is read by \<^verbatim>\<open>ParseUint\<close>, and the
  range of a signed \<open>bitSize\<close>-bit integer is checked. A range error returns the nearest
  representable value, any other error returns 0.
\<close>

definition ParseInt :: "string \<Rightarrow> nat \<Rightarrow> nat \<Rightarrow> 64 word \<times> error option" where
  "ParseInt s0 base bitSize =
     (if s0 = [] then (0, Some (NumError ''ParseInt'' s0 ErrSyntax))
      else
        let neg = (hd s0 = CHR ''-'');
            s = (if hd s0 = CHR ''+'' \<or> hd s0 = CHR ''-'' then tl s0 else s0);
            (un, err) = ParseUint s base bitSize
        in
        case err of
          Some (NumError fn num ErrSyntax) \<Rightarrow> (0, Some (NumError ''ParseInt'' s0 ErrSyntax))
        | Some (NumError fn num (ErrBase b)) \<Rightarrow> (0, Some (NumError ''ParseInt'' s0 (ErrBase b)))
        | Some (NumError fn num (ErrBitSize b)) \<Rightarrow>
            (0, Some (NumError ''ParseInt'' s0 (ErrBitSize b)))
        | Some (errorString m) \<Rightarrow> (0, Some (errorString m))
        | _ \<Rightarrow>
            let bitSize' = (if bitSize = 0 then 64 else bitSize);
                cutoff = (2 :: nat) ^ (bitSize' - 1)
            in
            if \<not> neg \<and> unat un \<ge> cutoff
            then (of_nat (cutoff - 1), Some (NumError ''ParseInt'' s0 ErrRange))
            else if neg \<and> unat un > cutoff
            then (- of_nat cutoff, Some (NumError ''ParseInt'' s0 ErrRange))
            else (if neg then - un else un, None))"

text \<open>\<^verbatim>\<open>formatBits\<close> in base 10, on the magnitude.\<close>

fun formatBits :: "nat \<Rightarrow> string" where
  "formatBits u =
     (if u < 10 then [char_of (48 + u)]
      else formatBits (u div 10) @ [char_of (48 + u mod 10)])"

definition FormatUint :: "64 word \<Rightarrow> string" where
  "FormatUint i = formatBits (unat i)"

definition FormatInt :: "64 word \<Rightarrow> string" where
  "FormatInt i =
     (if sint i < 0 then CHR ''-'' # formatBits (nat (- sint i)) else formatBits (nat (sint i)))"

definition Itoa :: "64 word \<Rightarrow> string" where
  "Itoa i = FormatInt i"

subsection \<open>Storage cells and the Value interface\<close>

text \<open>
  A binding mutates a variable that the caller owns. The variables live in a store with
  one component per Go type (a \<^verbatim>\<open>*bool\<close> never aliases a \<^verbatim>\<open>*int\<close>), addressed by
  \<open>addr\<close>; \<open>brk\<close> is the next address that \<^verbatim>\<open>new(T)\<close> hands out.
\<close>

type_synonym addr = nat

record heap =
  bools :: "addr \<Rightarrow> bool"
  ints :: "addr \<Rightarrow> 64 word"
  int64s :: "addr \<Rightarrow> 64 word"
  uints :: "addr \<Rightarrow> 64 word"
  uint64s :: "addr \<Rightarrow> 64 word"
  strings :: "addr \<Rightarrow> string"
  float64s :: "addr \<Rightarrow> 64 word"
  durations :: "addr \<Rightarrow> 64 word"
  brk :: addr

text \<open>The dynamically typed result of \<^verbatim>\<open>Get() interface{}\<close>.\<close>

datatype any =
    GoBool bool
  | GoInt "64 word"
  | GoInt64 "64 word"
  | GoUint "64 word"
  | GoUint64 "64 word"
  | GoString string
  | GoFloat64 "64 word"
  | GoDuration "64 word"

text \<open>
  \<^verbatim>\<open>type Value interface { String() string; Set(string) error; Get() interface{} }\<close>:
  a value is the record of its methods, each closed over the address of its cell.
\<close>

record Value =
  Value_String :: "heap \<Rightarrow> string"
  Value_Set :: "string \<Rightarrow> heap \<Rightarrow> error option \<times> heap"
  Value_Get :: "heap \<Rightarrow> any"

text \<open>
  Formatting and parsing a \<^verbatim>\<open>float64\<close> (\<^verbatim>\<open>strconv.ParseFloat(s, 64)\<close>,
  \<^verbatim>\<open>strconv.FormatFloat(f, 'g', -1, 64)\<close>) and a duration (\<^verbatim>\<open>time.ParseDuration\<close>,
  \<^verbatim>\<open>Duration.String\<close>) are library functions over the 64-bit patterns. The two variants
  that use them take them as a parameter; \<open>go_library\<close> below is the standard library.
\<close>

record extlib =
  ParseFloat :: "string \<Rightarrow> 64 word \<times> error option"
  FormatFloat :: "64 word \<Rightarrow> string"
  ParseDuration :: "string \<Rightarrow> 64 word \<times> error option"
  Duration_String :: "64 word \<Rightarrow> string"

paragraph \<open>bool\<close>

definition boolValue_Set :: "addr \<Rightarrow> string \<Rightarrow> heap \<Rightarrow> error option \<times> heap" where
  "boolValue_Set b s h =
     (let (v, err) = ParseBool s in (err, h\<lparr>bools := (bools h)(b := v)\<rparr>))"

definition boolValue_Get :: "addr \<Rightarrow> heap \<Rightarrow> any" where
  "boolValue_Get b h = GoBool (bools h b)"

definition boolValue_String :: "addr \<Rightarrow> heap \<Rightarrow> string" where
  "boolValue_String b h = FormatBool (bools h b)"

definition boolValue :: "addr \<Rightarrow> Value" where
  "boolValue p =
     \<lparr>Value_String = boolValue_String p, Value_Set = boolValue_Set p, Value_Get = boolValue_Get p\<rparr>"

definition newBoolValue :: "bool \<Rightarrow> addr \<Rightarrow> heap \<Rightarrow> Value \<times> heap" where
  "newBoolValue val p h = (boolValue p, h\<lparr>bools := (bools h)(p := val)\<rparr>)"

paragraph \<open>int\<close>

definition intValue_Set :: "addr \<Rightarrow> string \<Rightarrow> heap \<Rightarrow> error option \<times> heap" where
  "intValue_Set i s h =
     (let (v, err) = ParseInt s 0 64 in (err, h\<lparr>ints := (ints h)(i := v)\<rparr>))"

definition intValue_Get :: "addr \<Rightarrow> heap \<Rightarrow> any" where
  "intValue_Get i h = GoInt (ints h i)"

definition intValue_String :: "addr \<Rightarrow> heap \<Rightarrow> string" where
  "intValue_String i h = Itoa (ints h i)"

definition intValue :: "addr \<Rightarrow> Value" where
  "intValue p =
     \<lparr>Value_String = intValue_String p, Value_Set = intValue_Set p, Value_Get = intValue_Get p\<rparr>"

definition newIntValue :: "64 word \<Rightarrow> addr \<Rightarrow> heap \<Rightarrow> Value \<times> heap" where
  "newIntValue val p h = (intValue p, h\<lparr>ints := (ints h)(p := val)\<rparr>)"

paragraph \<open>int64\<close>

definition int64Value_Set :: "addr \<Rightarrow> string \<Rightarrow> heap \<Rightarrow> error option \<times> heap" where
  "int64Value_Set i s h =
     (let (v, err) = ParseInt s 0 64 in (err, h\<lparr>int64s := (int64s h)(i := v)\<rparr>))"

definition int64Value_Get :: "addr \<Rightarrow> heap \<Rightarrow> any" where
  "int64Value_Get i h = GoInt64 (int64s h i)"

definition int64Value_String :: "addr \<Rightarrow> heap \<Rightarrow> string" where
  "int64Value_String i h = FormatInt (int64s h i)"

definition int64Value :: "addr \<Rightarrow> Value" where
  "int64Value p =
     \<lparr>Value_String = int64Value_String p, Value_Set = int64Value_Set p,
      Value_Get = int64Value_Get p\<rparr>"

definition newInt64Value :: "64 word \<Rightarrow> addr \<Rightarrow> heap \<Rightarrow> Value \<times> heap" where
  "newInt64Value val p h = (int64Value p, h\<lparr>int64s := (int64s h)(p := val)\<rparr>)"

paragraph \<open>uint\<close>

definition uintValue_Set :: "addr \<Rightarrow> string \<Rightarrow> heap \<Rightarrow> error option \<times> heap" where
  "uintValue_Set i s h =
     (let (v, err) = ParseUint s 0 64 in (err, h\<lparr>uints := (uints h)(i := v)\<rparr>))"

definition uintValue_Get :: "addr \<Rightarrow> heap \<Rightarrow> any" where
  "uintValue_Get i h = GoUint (uints h i)"

definition uintValue_String :: "addr \<Rightarrow> heap \<Rightarrow> string" where
  "uintValue_String i h = FormatUint (uints h i)"

definition uintValue :: "addr \<Rightarrow> Value" where
  "uintValue p =
     \<lparr>Value_String = uintValue_String p, Value_Set = uintValue_Set p, Value_Get = uintValue_Get p\<rparr>"

definition newUintValue :: "64 word \<Rightarrow> addr \<Rightarrow> heap \<Rightarrow> Value \<times> heap" where
  "newUintValue val p h = (uintValue p, h\<lparr>uints := (uints h)(p := val)\<rparr>)"

paragraph \<open>uint64\<close>

definition uint64Value_Set :: "addr \<Rightarrow> string \<Rightarrow> heap \<Rightarrow> error option \<times> heap" where
  "uint64Value_Set i s h =
     (let (v, err) = ParseUint s 0 64 in (err, h\<lparr>uint64s := (uint64s h)(i := v)\<rparr>))"

definition uint64Value_Get :: "addr \<Rightarrow> heap \<Rightarrow> any" where
  "uint64Value_Get i h = GoUint64 (uint64s h i)"

definition uint64Value_String :: "addr \<Rightarrow> heap \<Rightarrow> string" where
  "uint64Value_String i h = FormatUint (uint64s h i)"

definition uint64Value :: "addr \<Rightarrow> Value" where
  "uint64Value p =
     \<lparr>Value_String = uint64Value_String p, Value_Set = uint64Value_Set p,
      Value_Get = uint64Value_Get p\<rparr>"

definition newUint64Value :: "64 word \<Rightarrow> addr \<Rightarrow> heap \<Rightarrow> Value \<times> heap" where
  "newUint64Value val p h = (uint64Value p, h\<lparr>uint64s := (uint64s h)(p := val)\<rparr>)"

paragraph \<open>string\<close>

definition stringValue_Set :: "addr \<Rightarrow> string \<Rightarrow> heap \<Rightarrow> error option \<times> heap" where
  "stringValue_Set s val h = (None, h\<lparr>strings := (strings h)(s := val)\<rparr>)"

definition stringValue_Get :: "addr \<Rightarrow> heap \<Rightarrow> any" where
  "stringValue_Get s h = GoString (strings h s)"

definition stringValue_String :: "addr \<Rightarrow> heap \<Rightarrow> string" where
  "stringValue_String s h = strings h s"

definition stringValue :: "addr \<Rightarrow> Value" where
  "stringValue p =
     \<lparr>Value_String = stringValue_String p, Value_Set = stringValue_Set p,
      Value_Get = stringValue_Get p\<rparr>"

definition newStringValue :: "string \<Rightarrow> addr \<Rightarrow> heap \<Rightarrow> Value \<times> heap" where
  "newStringValue val p h = (stringValue p, h\<lparr>strings := (strings h)(p := val)\<rparr>)"

paragraph \<open>float64\<close>

definition float64Value_Set :: "extlib \<Rightarrow> addr \<Rightarrow> string \<Rightarrow> heap \<Rightarrow> error option \<times> heap" where
  "float64Value_Set L f s h =
     (let (v, err) = ParseFloat L s in (err, h\<lparr>float64s := (float64s h)(f := v)\<rparr>))"

definition float64Value_Get :: "addr \<Rightarrow> heap \<Rightarrow> any" where
  "float64Value_Get f h = GoFloat64 (float64s h f)"

definition float64Value_String :: "extlib \<Rightarrow> addr \<Rightarrow> heap \<Rightarrow> string" where
  "float64Value_String L f h = FormatFloat L (float64s h f)"

definition float64Value :: "extlib \<Rightarrow> addr \<Rightarrow> Value" where
  "float64Value L p =
     \<lparr>Value_String = float64Value_String L p, Value_Set = float64Value_Set L p,
      Value_Get = float64Value_Get p\<rparr>"

definition newFloat64Value :: "extlib \<Rightarrow> 64 word \<Rightarrow> addr \<Rightarrow> heap \<Rightarrow> Value \<times> heap" where
  "newFloat64Value L val p h = (float64Value L p, h\<lparr>float64s := (float64s h)(p := val)\<rparr>)"

paragraph \<open>time.Duration\<close>

definition durationValue_Set :: "extlib \<Rightarrow> addr \<Rightarrow> string \<Rightarrow> heap \<Rightarrow> error option \<times> heap" where
  "durationValue_Set L d s h =
     (let (v, err) = ParseDuration L s in (err, h\<lparr>durations := (durations h)(d := v)\<rparr>))"

definition durationValue_Get :: "addr \<Rightarrow> heap \<Rightarrow> any" where
  "durationValue_Get d h = GoDuration (durations h d)"

definition durationValue_String :: "extlib \<Rightarrow> addr \<Rightarrow> heap \<Rightarrow> string" where
  "durationValue_String L d h = Duration_String L (durations h d)"

definition durationValue :: "extlib \<Rightarrow> addr \<Rightarrow> Value" where
  "durationValue L p =
     \<lparr>Value_String = durationValue_String L p, Value_Set = durationValue_Set L p,
      Value_Get = durationValue_Get p\<rparr>"

definition newDurationValue :: "extlib \<Rightarrow> 64 word \<Rightarrow> addr \<Rightarrow> heap \<Rightarrow> Value \<times> heap" where
  "newDurationValue L val p h = (durationValue L p, h\<lparr>durations := (durations h)(p := val)\<rparr>)"

subsection \<open>The functions of package strings that the file reader calls\<close>

text \<open>
  \<^verbatim>\<open>strings.Index\<close> and \<^verbatim>\<open>strings.Split\<close>, for the one-byte separators the code passes.
\<close>

definition Index :: "string \<Rightarrow> char \<Rightarrow> int" where
  "Index s c = (if c \<in> set s then int (length (takeWhile (\<lambda>x. x \<noteq> c) s)) else - 1)"

fun Split :: "string \<Rightarrow> char \<Rightarrow> string list" where
  "Split [] sep = [[]]"
| "Split (c # cs) sep =
     (if c = sep then [] # Split cs sep
      else (case Split cs sep of [] \<Rightarrow> [[c]] | p # ps \<Rightarrow> (c # p) # ps))"

text \<open>
  \<^verbatim>\<open>strings.TrimSpace\<close> removes the leading and trailing runes that \<^verbatim>\<open>unicode.IsSpace\<close>
  accepts: the six ASCII ones, and U+0085, U+00A0, U+1680, U+2000 to U+200A, U+2028,
  U+2029, U+202F, U+205F and U+3000, which a Go string holds in UTF-8.
\<close>

definition asciiSpace :: "char \<Rightarrow> bool" where
  "asciiSpace c = (byte c \<in> set [9, 10, 11, 12, 13, 32])"

definition space_runes :: "string list" where
  "space_runes =
     map (map char_of)
       ([[0xC2, 0x85], [0xC2, 0xA0], [0xE1, 0x9A, 0x80]]
        @ map (\<lambda>b. [0xE2, 0x80, b]) [0x80 ..< 0x8B]
        @ [[0xE2, 0x80, 0xA8], [0xE2, 0x80, 0xA9], [0xE2, 0x80, 0xAF], [0xE2, 0x81, 0x9F],
           [0xE3, 0x80, 0x80 :: nat]])"

text \<open>The width in bytes of the white-space rune a string starts (ends) with, 0 if none.\<close>

definition leading_space :: "string \<Rightarrow> nat" where
  "leading_space s =
     (case s of
        [] \<Rightarrow> 0
      | c # _ \<Rightarrow>
          if asciiSpace c then 1
          else (case find (\<lambda>p. take (length p) s = p) space_runes of
                  Some p \<Rightarrow> length p
                | None \<Rightarrow> 0))"

definition trailing_space :: "string \<Rightarrow> nat" where
  "trailing_space s =
     (if s = [] then 0
      else if asciiSpace (last s) then 1
      else (case find (\<lambda>p. length p \<le> length s \<and> drop (length s - length p) s = p) space_runes of
              Some p \<Rightarrow> length p
            | None \<Rightarrow> 0))"

function TrimLeftSpace :: "string \<Rightarrow> string" where
  "TrimLeftSpace s =
     (let n = leading_space s in if n = 0 then s else TrimLeftSpace (drop n s))"
  by pat_completeness auto
termination
  by (relation "measure length") (auto simp: leading_space_def split: list.splits if_splits)

function TrimRightSpace :: "string \<Rightarrow> string" where
  "TrimRightSpace s =
     (let n = trailing_space s in if n = 0 then s else TrimRightSpace (take (length s - n) s))"
  by pat_completeness auto
termination
  by (relation "measure length") (auto simp: trailing_space_def split: if_splits)

definition TrimSpace :: "string \<Rightarrow> string" where
  "TrimSpace s = TrimRightSpace (TrimLeftSpace s)"

text \<open>\<^verbatim>\<open>strings.Trim(s, cutset)\<close> for a cutset of one ASCII byte.\<close>

definition trimRightByte :: "string \<Rightarrow> char \<Rightarrow> string" where
  "trimRightByte s c = rev (dropWhile (\<lambda>x. x = c) (rev s))"

definition trimLeftByte :: "string \<Rightarrow> char \<Rightarrow> string" where
  "trimLeftByte s c = dropWhile (\<lambda>x. x = c) s"

definition Trim :: "string \<Rightarrow> char \<Rightarrow> string" where
  "Trim s c = trimLeftByte (trimRightByte s c) c"

subsection \<open>Config, ConfigSet and the state of the program\<close>

record Config =
  Name :: string
  Usage :: string
  Value :: Value
  DefValue :: string

text \<open>
  The two maps of a \<^verbatim>\<open>ConfigSet\<close> hold pointers to configs that the package never
  mutates after \<^verbatim>\<open>Var\<close> has built them, so the maps hold the configs themselves. A nil
  map and an empty map are both \<open>[]\<close> (they read alike, and the code makes the map before
  it writes to it).
\<close>

record ConfigSet =
  filename :: string
  parsed :: bool
  actual :: "(string \<times> Config) list"
  formal :: "(string \<times> Config) list"

text \<open>
  What \<^verbatim>\<open>fmt.Printf\<close> writes to the standard output: text, and an error value printed
  with \<^verbatim>\<open>%v\<close>, which stands for its message.
\<close>

datatype printed = Text string | ErrorV error

text \<open>
  A path of the file system holds a regular file with its content, nothing, or something
  that \<^verbatim>\<open>os.Open\<close> and \<^verbatim>\<open>os.Create\<close> fail on.
\<close>

datatype fnode = Absent | Regular string | Inaccessible

text \<open>
  The state: the variables, the config sets (a \<^verbatim>\<open>*ConfigSet\<close> is an index into \<open>sets\<close>,
  \<open>nsets\<close> the next one \<^verbatim>\<open>NewConfigSet\<close> allocates), the standard output and the files.
\<close>

record world =
  mem :: heap
  sets :: "nat \<Rightarrow> ConfigSet"
  nsets :: nat
  stdout :: "printed list"
  fs :: "string \<Rightarrow> fnode"

text \<open>A call returns, or panics with a message; both leave a state behind.\<close>

datatype 'a outcome = Panic string world | Return 'a world

definition Printf :: "printed list \<Rightarrow> world \<Rightarrow> world" where
  "Printf out w = w\<lparr>stdout := stdout w @ out\<rparr>"

definition Println :: "string \<Rightarrow> world \<Rightarrow> world" where
  "Println msg w = Printf [Text msg, Text ''\<newline>''] w"

text \<open>\<^verbatim>\<open>var Configuration = NewConfigSet("")\<close>: the package's own set is the first one allocated.\<close>

definition NewConfigSet :: "string \<Rightarrow> world \<Rightarrow> nat \<times> world" where
  "NewConfigSet fname w =
     (nsets w,
      w\<lparr>sets := (sets w)(nsets w := \<lparr>filename = fname, parsed = False, actual = [], formal = []\<rparr>),
        nsets := nsets w + 1\<rparr>)"

definition Configuration :: nat where
  "Configuration = 0"

definition ConfigSet_Init :: "nat \<Rightarrow> string \<Rightarrow> world \<Rightarrow> world" where
  "ConfigSet_Init f fname w = w\<lparr>sets := (sets w)(f := (sets w f)\<lparr>filename := fname\<rparr>)\<rparr>"

definition SetFile :: "string \<Rightarrow> world \<Rightarrow> world" where
  "SetFile fname w = ConfigSet_Init Configuration fname w"

text \<open>
  \<^verbatim>\<open>sortConfigs\<close> collects the \<open>Name\<close> of every config of the map, sorts the names and
  looks each one up again in the map; a name that is no key gives a nil pointer (\<open>None\<close>).
\<close>

definition sortConfigs :: "(string \<times> Config) list \<Rightarrow> Config option list" where
  "sortConfigs configs =
     (let list = sort (map (\<lambda>(k, f). Name f) configs)
      in map (\<lambda>name. map_of configs name) list)"

fun visit_loop ::
  "(Config option \<Rightarrow> world \<Rightarrow> unit outcome) \<Rightarrow> Config option list \<Rightarrow> world \<Rightarrow> unit outcome" where
  "visit_loop fn [] w = Return () w"
| "visit_loop fn (config # rest) w =
     (case fn config w of Panic msg w' \<Rightarrow> Panic msg w' | Return _ w' \<Rightarrow> visit_loop fn rest w')"

definition ConfigSet_VisitAll ::
  "nat \<Rightarrow> (Config option \<Rightarrow> world \<Rightarrow> unit outcome) \<Rightarrow> world \<Rightarrow> unit outcome" where
  "ConfigSet_VisitAll f fn w = visit_loop fn (sortConfigs (formal (sets w f))) w"

definition VisitAll :: "(Config option \<Rightarrow> world \<Rightarrow> unit outcome) \<Rightarrow> world \<Rightarrow> unit outcome" where
  "VisitAll fn w = ConfigSet_VisitAll Configuration fn w"

definition ConfigSet_Visit ::
  "nat \<Rightarrow> (Config option \<Rightarrow> world \<Rightarrow> unit outcome) \<Rightarrow> world \<Rightarrow> unit outcome" where
  "ConfigSet_Visit f fn w = visit_loop fn (sortConfigs (actual (sets w f))) w"

definition Visit :: "(Config option \<Rightarrow> world \<Rightarrow> unit outcome) \<Rightarrow> world \<Rightarrow> unit outcome" where
  "Visit fn w = ConfigSet_Visit Configuration fn w"

definition ConfigSet_Lookup :: "nat \<Rightarrow> string \<Rightarrow> world \<Rightarrow> Config option" where
  "ConfigSet_Lookup f name w = map_of (formal (sets w f)) name"

definition Lookup :: "string \<Rightarrow> world \<Rightarrow> Config option" where
  "Lookup name w = map_of (formal (sets w Configuration)) name"

definition ConfigSet_NConfig :: "nat \<Rightarrow> world \<Rightarrow> nat" where
  "ConfigSet_NConfig f w = length (actual (sets w f))"

definition NConfig :: "world \<Rightarrow> nat" where
  "NConfig w = length (actual (sets w Configuration))"

text \<open>
  \<^verbatim>\<open>Var\<close> remembers the rendering of the value as the default, then panics if the name
  is taken, and registers the config otherwise.
\<close>

definition ConfigSet_Var :: "nat \<Rightarrow> Value \<Rightarrow> string \<Rightarrow> string \<Rightarrow> world \<Rightarrow> unit outcome" where
  "ConfigSet_Var f val name usage w =
     (let config = \<lparr>Name = name, Usage = usage, Value = val, DefValue = Value_String val (mem w)\<rparr>
      in case map_of (formal (sets w f)) name of
           Some _ \<Rightarrow>
             (let msg = (if filename (sets w f) = [] then ''config redefined: '' @ name
                         else filename (sets w f) @ '' config redefined: '' @ name)
              in Panic msg (Println msg w))
         | None \<Rightarrow>
             Return ()
               (w\<lparr>sets := (sets w)
                    (f := (sets w f)\<lparr>formal := AList.update name config (formal (sets w f))\<rparr>)\<rparr>))"

definition Var :: "Value \<Rightarrow> string \<Rightarrow> string \<Rightarrow> world \<Rightarrow> unit outcome" where
  "Var val name usage w = ConfigSet_Var Configuration val name usage w"

subsection \<open>Defining configs\<close>

text \<open>
  For each type, \<open>XVar\<close> binds a config to the caller's variable \<open>p\<close> and \<open>X\<close> allocates
  the variable with \<^verbatim>\<open>new\<close> (zero-initialised) and returns its address. The top-level
  functions of the same names call these methods on \<open>Configuration\<close>.
\<close>

definition new_bool :: "heap \<Rightarrow> addr \<times> heap" where
  "new_bool h = (brk h, h\<lparr>bools := (bools h)(brk h := False), brk := brk h + 1\<rparr>)"

definition ConfigSet_BoolVar ::
  "nat \<Rightarrow> addr \<Rightarrow> string \<Rightarrow> bool \<Rightarrow> string \<Rightarrow> world \<Rightarrow> unit outcome" where
  "ConfigSet_BoolVar f p name val usage w =
     (let (v, h) = newBoolValue val p (mem w) in ConfigSet_Var f v name usage (w\<lparr>mem := h\<rparr>))"

definition ConfigSet_Bool ::
  "nat \<Rightarrow> string \<Rightarrow> bool \<Rightarrow> string \<Rightarrow> world \<Rightarrow> addr outcome" where
  "ConfigSet_Bool f name val usage w =
     (let (p, h) = new_bool (mem w)
      in case ConfigSet_BoolVar f p name val usage (w\<lparr>mem := h\<rparr>) of
           Panic msg w' \<Rightarrow> Panic msg w'
         | Return _ w' \<Rightarrow> Return p w')"

definition new_int :: "heap \<Rightarrow> addr \<times> heap" where
  "new_int h = (brk h, h\<lparr>ints := (ints h)(brk h := 0), brk := brk h + 1\<rparr>)"

definition ConfigSet_IntVar ::
  "nat \<Rightarrow> addr \<Rightarrow> string \<Rightarrow> 64 word \<Rightarrow> string \<Rightarrow> world \<Rightarrow> unit outcome" where
  "ConfigSet_IntVar f p name val usage w =
     (let (v, h) = newIntValue val p (mem w) in ConfigSet_Var f v name usage (w\<lparr>mem := h\<rparr>))"

definition ConfigSet_Int ::
  "nat \<Rightarrow> string \<Rightarrow> 64 word \<Rightarrow> string \<Rightarrow> world \<Rightarrow> addr outcome" where
  "ConfigSet_Int f name val usage w =
     (let (p, h) = new_int (mem w)
      in case ConfigSet_IntVar f p name val usage (w\<lparr>mem := h\<rparr>) of
           Panic msg w' \<Rightarrow> Panic msg w'
         | Return _ w' \<Rightarrow> Return p w')"

definition new_int64 :: "heap \<Rightarrow> addr \<times> heap" where
  "new_int64 h = (brk h, h\<lparr>int64s := (int64s h)(brk h := 0), brk := brk h + 1\<rparr>)"

definition ConfigSet_Int64Var ::
  "nat \<Rightarrow> addr \<Rightarrow> string \<Rightarrow> 64 word \<Rightarrow> string \<Rightarrow> world \<Rightarrow> unit outcome" where
  "ConfigSet_Int64Var f p name val usage w =
     (let (v, h) = newInt64Value val p (mem w) in ConfigSet_Var f v name usage (w\<lparr>mem := h\<rparr>))"

definition ConfigSet_Int64 ::
  "nat \<Rightarrow> string \<Rightarrow> 64 word \<Rightarrow> string \<Rightarrow> world \<Rightarrow> addr outcome" where
  "ConfigSet_Int64 f name val usage w =
     (let (p, h) = new_int64 (mem w)
      in case ConfigSet_Int64Var f p name val usage (w\<lparr>mem := h\<rparr>) of
           Panic msg w' \<Rightarrow> Panic msg w'
         | Return _ w' \<Rightarrow> Return p w')"

definition new_uint :: "heap \<Rightarrow> addr \<times> heap" where
  "new_uint h = (brk h, h\<lparr>uints := (uints h)(brk h := 0), brk := brk h + 1\<rparr>)"

definition ConfigSet_UintVar ::
  "nat \<Rightarrow> addr \<Rightarrow> string \<Rightarrow> 64 word \<Rightarrow> string \<Rightarrow> world \<Rightarrow> unit outcome" where
  "ConfigSet_UintVar f p name val usage w =
     (let (v, h) = newUintValue val p (mem w) in ConfigSet_Var f v name usage (w\<lparr>mem := h\<rparr>))"

definition ConfigSet_Uint ::
  "nat \<Rightarrow> string \<Rightarrow> 64 word \<Rightarrow> string \<Rightarrow> world \<Rightarrow> addr outcome" where
  "ConfigSet_Uint f name val usage w =
     (let (p, h) = new_uint (mem w)
      in case ConfigSet_UintVar f p name val usage (w\<lparr>mem := h\<rparr>) of
           Panic msg w' \<Rightarrow> Panic msg w'
         | Return _ w' \<Rightarrow> Return p w')"

definition new_uint64 :: "heap \<Rightarrow> addr \<times> heap" where
  "new_uint64 h = (brk h, h\<lparr>uint64s := (uint64s h)(brk h := 0), brk := brk h + 1\<rparr>)"

definition ConfigSet_Uint64Var ::
  "nat \<Rightarrow> addr \<Rightarrow> string \<Rightarrow> 64 word \<Rightarrow> string \<Rightarrow> world \<Rightarrow> unit outcome" where
  "ConfigSet_Uint64Var f p name val usage w =
     (let (v, h) = newUint64Value val p (mem w) in ConfigSet_Var f v name usage (w\<lparr>mem := h\<rparr>))"

definition ConfigSet_Uint64 ::
  "nat \<Rightarrow> string \<Rightarrow> 64 word \<Rightarrow> string \<Rightarrow> world \<Rightarrow> addr outcome" where
  "ConfigSet_Uint64 f name val usage w =
     (let (p, h) = new_uint64 (mem w)
      in case ConfigSet_Uint64Var f p name val usage (w\<lparr>mem := h\<rparr>) of
           Panic msg w' \<Rightarrow> Panic msg w'
         | Return _ w' \<Rightarrow> Return p w')"

definition new_string :: "heap \<Rightarrow> addr \<times> heap" where
  "new_string h = (brk h, h\<lparr>strings := (strings h)(brk h := []), brk := brk h + 1\<rparr>)"

definition ConfigSet_StringVar ::
  "nat \<Rightarrow> addr \<Rightarrow> string \<Rightarrow> string \<Rightarrow> string \<Rightarrow> world \<Rightarrow> unit outcome" where
  "ConfigSet_StringVar f p name val usage w =
     (let (v, h) = newStringValue val p (mem w) in ConfigSet_Var f v name usage (w\<lparr>mem := h\<rparr>))"

definition ConfigSet_String ::
  "nat \<Rightarrow> string \<Rightarrow> string \<Rightarrow> string \<Rightarrow> world \<Rightarrow> addr outcome" where
  "ConfigSet_String f name val usage w =
     (let (p, h) = new_string (mem w)
      in case ConfigSet_StringVar f p name val usage (w\<lparr>mem := h\<rparr>) of
           Panic msg w' \<Rightarrow> Panic msg w'
         | Return _ w' \<Rightarrow> Return p w')"

definition new_float64 :: "heap \<Rightarrow> addr \<times> heap" where
  "new_float64 h = (brk h, h\<lparr>float64s := (float64s h)(brk h := 0), brk := brk h + 1\<rparr>)"

definition ConfigSet_Float64Var ::
  "extlib \<Rightarrow> nat \<Rightarrow> addr \<Rightarrow> string \<Rightarrow> 64 word \<Rightarrow> string \<Rightarrow> world \<Rightarrow> unit outcome" where
  "ConfigSet_Float64Var L f p name val usage w =
     (let (v, h) = newFloat64Value L val p (mem w) in ConfigSet_Var f v name usage (w\<lparr>mem := h\<rparr>))"

definition ConfigSet_Float64 ::
  "extlib \<Rightarrow> nat \<Rightarrow> string \<Rightarrow> 64 word \<Rightarrow> string \<Rightarrow> world \<Rightarrow> addr outcome" where
  "ConfigSet_Float64 L f name val usage w =
     (let (p, h) = new_float64 (mem w)
      in case ConfigSet_Float64Var L f p name val usage (w\<lparr>mem := h\<rparr>) of
           Panic msg w' \<Rightarrow> Panic msg w'
         | Return _ w' \<Rightarrow> Return p w')"

definition new_duration :: "heap \<Rightarrow> addr \<times> heap" where
  "new_duration h = (brk h, h\<lparr>durations := (durations h)(brk h := 0), brk := brk h + 1\<rparr>)"

definition ConfigSet_DurationVar ::
  "extlib \<Rightarrow> nat \<Rightarrow> addr \<Rightarrow> string \<Rightarrow> 64 word \<Rightarrow> string \<Rightarrow> world \<Rightarrow> unit outcome" where
  "ConfigSet_DurationVar L f p name val usage w =
     (let (v, h) = newDurationValue L val p (mem w) in ConfigSet_Var f v name usage (w\<lparr>mem := h\<rparr>))"

definition ConfigSet_Duration ::
  "extlib \<Rightarrow> nat \<Rightarrow> string \<Rightarrow> 64 word \<Rightarrow> string \<Rightarrow> world \<Rightarrow> addr outcome" where
  "ConfigSet_Duration L f name val usage w =
     (let (p, h) = new_duration (mem w)
      in case ConfigSet_DurationVar L f p name val usage (w\<lparr>mem := h\<rparr>) of
           Panic msg w' \<Rightarrow> Panic msg w'
         | Return _ w' \<Rightarrow> Return p w')"

subsection \<open>Set\<close>

text \<open>
  A name that is not registered becomes a new string config holding the text, a notice is
  printed and the call succeeds. Otherwise the value parses the text; on an error the
  error is returned, and on success the config is recorded in \<open>actual\<close>.
\<close>

definition ConfigSet_Set :: "nat \<Rightarrow> string \<Rightarrow> string \<Rightarrow> world \<Rightarrow> error option outcome" where
  "ConfigSet_Set f name val w =
     (case map_of (formal (sets w f)) name of
        None \<Rightarrow>
          (case ConfigSet_String f name val [] w of
             Panic msg w' \<Rightarrow> Panic msg w'
           | Return _ w' \<Rightarrow>
               Return None
                 (Printf [Text ''Added config (string) '', Text name, Text '' = '', Text val,
                          Text ''\<newline>''] w'))
      | Some config \<Rightarrow>
          (let (err, h) = Value_Set (Value config) val (mem w)
           in case err of
                Some e \<Rightarrow> Return (Some e) (w\<lparr>mem := h\<rparr>)
              | None \<Rightarrow>
                  Return None
                    (w\<lparr>mem := h,
                       sets := (sets w)
                         (f := (sets w f)\<lparr>actual := AList.update name config (actual (sets w f))\<rparr>)\<rparr>)))"

definition Set_top :: "string \<Rightarrow> string \<Rightarrow> world \<Rightarrow> error option outcome" where
  "Set_top name val w = ConfigSet_Set Configuration name val w"

subsection \<open>Save\<close>

definition os_Create :: "string \<Rightarrow> world \<Rightarrow> error + world" where
  "os_Create path w =
     (case fs w path of
        Inaccessible \<Rightarrow> Inl (errorString (''open '' @ path))
      | _ \<Rightarrow> Inr (w\<lparr>fs := (fs w)(path := Regular [])\<rparr>))"

definition os_Open :: "string \<Rightarrow> world \<Rightarrow> error + string" where
  "os_Open path w =
     (case fs w path of
        Regular content \<Rightarrow> Inr content
      | _ \<Rightarrow> Inl (errorString (''open '' @ path)))"

text \<open>\<^verbatim>\<open>fmt.Fprintf(out, ...)\<close> appends to the file that \<open>out\<close> was created at.\<close>

definition Fprintf :: "string \<Rightarrow> string \<Rightarrow> world \<Rightarrow> world" where
  "Fprintf out text w =
     (case fs w out of
        Regular content \<Rightarrow> w\<lparr>fs := (fs w)(out := Regular (content @ text))\<rparr>
      | _ \<Rightarrow> w)"

definition nil_dereference :: string where
  "nil_dereference = ''runtime error: invalid memory address or nil pointer dereference''"

definition Save_visitor :: "string \<Rightarrow> Config option \<Rightarrow> world \<Rightarrow> unit outcome" where
  "Save_visitor out config w =
     (case config of
        None \<Rightarrow> Panic nil_dereference w
      | Some f \<Rightarrow>
          Return ()
            (Fprintf out
               (Name f @ ''='' @ Value_String (Value f) (mem w) @ '' # '' @ Usage f @ ''\<newline>'') w))"

text \<open>
  \<^verbatim>\<open>Save\<close> is a method of \<open>f\<close> and writes to the file of \<open>f\<close>; the configs it writes are
  those that the top-level \<^verbatim>\<open>VisitAll\<close> visits.
\<close>

definition ConfigSet_Save :: "nat \<Rightarrow> world \<Rightarrow> unit outcome" where
  "ConfigSet_Save f w =
     (if filename (sets w f) = [] then Return () (Printf [Text ''No filename to save.\<newline>''] w)
      else
        let w1 = Printf [Text ''Writing config to '', Text (filename (sets w f)), Text ''\<newline>''] w
        in case os_Create (filename (sets w f)) w1 of
             Inl err \<Rightarrow> Return () w1
           | Inr w2 \<Rightarrow>
               (case VisitAll (Save_visitor (filename (sets w f))) w2 of
                  Panic msg w3 \<Rightarrow> Panic msg w3
                | Return _ w3 \<Rightarrow> Return () (Printf [Text ''Done.\<newline>''] w3)))"

definition Save :: "world \<Rightarrow> unit outcome" where
  "Save w = ConfigSet_Save Configuration w"

subsection \<open>Load\<close>

text \<open>
  \<^verbatim>\<open>bufio.Scanner\<close> with the default split function \<^verbatim>\<open>ScanLines\<close>: the lines of the data
  without their end-of-line marker (a newline, with one carriage return before it
  dropped); a last line without newline counts if it is not empty. A line that does not
  fit the buffer of \<open>MaxScanTokenSize\<close> bytes ends the scan.
\<close>

definition MaxScanTokenSize :: nat where
  "MaxScanTokenSize = 64 * 1024"

definition dropCR :: "string \<Rightarrow> string" where
  "dropCR data = (if data \<noteq> [] \<and> last data = CHR 0x0D then butlast data else data)"

function Scan :: "string \<Rightarrow> string list" where
  "Scan data =
     (if data = [] then []
      else
        let line = takeWhile (\<lambda>c. c \<noteq> CHR 0x0A) data;
            rest = drop (length line + 1) data
        in if length line \<ge> MaxScanTokenSize then [] else dropCR line # Scan rest)"
  by pat_completeness auto
termination
  by (relation "measure length") auto

text \<open>The body of the loop of \<^verbatim>\<open>Load\<close>, for one line.\<close>

definition Load_body :: "nat \<Rightarrow> string \<Rightarrow> world \<Rightarrow> unit outcome" where
  "Load_body f line0 w =
     (let ci = Index line0 (CHR ''#'');
          line = (if ci > - 1 then take (nat ci) line0 else line0);
          kv = Split line (CHR ''='')
      in if length kv = 2 then
           let key = TrimSpace (kv ! 0);
               val = Trim (TrimSpace (kv ! 1)) (CHR 0x22)
           in case ConfigSet_Set f key val w of
                Panic msg w' \<Rightarrow> Panic msg w'
              | Return err w' \<Rightarrow>
                  (case err of
                     Some e \<Rightarrow>
                       Return () (Printf [Text ''f.Set returned err='', ErrorV e, Text ''\<newline>''] w')
                   | None \<Rightarrow> Return () w')
         else Return () w)"

fun Load_loop :: "nat \<Rightarrow> string list \<Rightarrow> world \<Rightarrow> unit outcome" where
  "Load_loop f [] w = Return () w"
| "Load_loop f (line # rest) w =
     (case Load_body f line w of
        Panic msg w' \<Rightarrow> Panic msg w'
      | Return _ w' \<Rightarrow> Load_loop f rest w')"

definition ConfigSet_Load :: "nat \<Rightarrow> world \<Rightarrow> unit outcome" where
  "ConfigSet_Load f w =
     (if filename (sets w f) = [] then Return () (Printf [Text ''No file to load.\<newline>''] w)
      else
        let w1 = Printf [Text ''Loading config from '', Text (filename (sets w f)), Text ''\<newline>''] w
        in case os_Open (filename (sets w f)) w1 of
             Inl err \<Rightarrow> Return () w1
           | Inr content \<Rightarrow> Load_loop f (Scan content) w1)"

definition Load :: "world \<Rightarrow> unit outcome" where
  "Load w = ConfigSet_Load Configuration w"

subsection \<open>The state after package initialisation\<close>

definition heap0 :: heap where
  "heap0 =
     \<lparr>bools = (\<lambda>_. False), ints = (\<lambda>_. 0), int64s = (\<lambda>_. 0), uints = (\<lambda>_. 0),
      uint64s = (\<lambda>_. 0), strings = (\<lambda>_. []), float64s = (\<lambda>_. 0), durations = (\<lambda>_. 0),
      brk = 0\<rparr>"

definition world0 :: world where
  "world0 =
     snd (NewConfigSet []
       \<lparr>mem = heap0,
        sets = (\<lambda>_. \<lparr>filename = [], parsed = False, actual = [], formal = []\<rparr>),
        nsets = 0, stdout = [], fs = (\<lambda>_. Absent)\<rparr>)"

subsection \<open>The command-line parser\<close>

text \<open>
  Modelled from the spec: the command-line parser (\<^verbatim>\<open>Parse\<close>, with the positional
  arguments it leaves) is announced by the package comment of \<^verbatim>\<open>config.go\<close> but no such
  function is in the source. The definition follows section 4.3 of the specification:
  parsing stops at \<open>--\<close> (consumed), at \<open>-\<close> and at a token that does not begin with \<open>-\<close>;
  a flag token loses one or two leading \<open>-\<close> and is split at its first \<open>=\<close>; with a
  value it is \<open>Set\<close>; without one, a boolean binding is set to \<open>true\<close> and any other name
  takes the next token as its value, and parsing fails if there is none. An error of
  \<open>Set\<close> is returned to the caller. The result is the error, if any, and the positional
  arguments.
\<close>

definition flag_name_value :: "string \<Rightarrow> string \<times> string option" where
  "flag_name_value tok =
     (let body = (if take 2 tok = ''--'' then drop 2 tok else drop 1 tok);
          name = takeWhile (\<lambda>c. c \<noteq> CHR ''='') body
      in if CHR ''='' \<in> set body then (name, Some (drop (length name + 1) body))
         else (name, None))"

definition is_boolean_binding :: "nat \<Rightarrow> string \<Rightarrow> world \<Rightarrow> bool" where
  "is_boolean_binding f name w =
     (case ConfigSet_Lookup f name w of
        None \<Rightarrow> False
      | Some config \<Rightarrow> (case Value_Get (Value config) (mem w) of GoBool _ \<Rightarrow> True | _ \<Rightarrow> False))"

fun Parse :: "nat \<Rightarrow> string list \<Rightarrow> world \<Rightarrow> (error option \<times> string list) outcome" where
  "Parse f [] w = Return (None, []) w"
| "Parse f (tok # rest) w =
     (if tok = ''--'' then Return (None, rest) w
      else if tok = ''-'' \<or> take 1 tok \<noteq> ''-'' then Return (None, tok # rest) w
      else
        (case flag_name_value tok of
           (name, Some val) \<Rightarrow>
             (case ConfigSet_Set f name val w of
                Panic msg w' \<Rightarrow> Panic msg w'
              | Return (Some e) w' \<Rightarrow> Return (Some e, rest) w'
              | Return None w' \<Rightarrow> Parse f rest w')
         | (name, None) \<Rightarrow>
             if is_boolean_binding f name w then
               (case ConfigSet_Set f name ''true'' w of
                  Panic msg w' \<Rightarrow> Panic msg w'
                | Return (Some e) w' \<Rightarrow> Return (Some e, rest) w'
                | Return None w' \<Rightarrow> Parse f rest w')
             else
               (case rest of
                  [] \<Rightarrow> Return (Some (errorString (''flag needs an argument: -'' @ name)), []) w
                | val # rest' \<Rightarrow>
                    (case ConfigSet_Set f name val w of
                       Panic msg w' \<Rightarrow> Panic msg w'
                     | Return (Some e) w' \<Rightarrow> Return (Some e, rest') w'
                     | Return None w' \<Rightarrow> Parse f rest' w'))))"

subsection \<open>The library functions for float64 and time.Duration\<close>

text \<open>
  The functions of the Go standard library behind \<open>float64Value\<close> and \<open>durationValue\<close>,
  on the 64-bit patterns. A finite \<^verbatim>\<open>float64\<close> is a sign bit and 63 bits \<open>k\<close>, the exponent
  field times \<open>2^52\<close> plus the fraction; \<open>float64_value k\<close> is the number these bits stand
  for, and \<open>float64_nearest x\<close> are the bits of the number nearest to a positive rational
  \<open>x\<close> (ties to the even fraction, the IEEE-754 rule), at least \<open>inf_bits\<close> when \<open>x\<close> is too
  large. \<open>ilog b x\<close> is the integer part of the logarithm of \<open>x\<close> to the base \<open>b\<close>.
\<close>

definition ilog :: "nat \<Rightarrow> rat \<Rightarrow> int" where
  "ilog b x =
     (let (p, q) = quotient_of x;
          d = int (floorlog b (nat p)) - int (floorlog b (nat q))
      in if of_nat b powi d \<le> x then d else d - 1)"

definition round_half_even :: "rat \<Rightarrow> int" where
  "round_half_even q =
     (let n = \<lfloor>q\<rfloor>; r = q - of_int n
      in if r < 1 / 2 then n else if 1 / 2 < r then n + 1 else if even n then n else n + 1)"

definition float64_mantissa_exponent :: "rat \<Rightarrow> int \<times> int" where
  "float64_mantissa_exponent x =
     (let e = max (ilog 2 x - 52) (- 1074) in (round_half_even (x / 2 powi e), e))"

definition float64_nearest :: "rat \<Rightarrow> nat" where
  "float64_nearest x = (let (m, e) = float64_mantissa_exponent x in nat ((e + 1074) * 2 ^ 52 + m))"

definition float64_round :: "rat \<Rightarrow> rat" where
  "float64_round x =
     (if x = 0 then 0
      else let (m, e) = float64_mantissa_exponent \<bar>x\<bar> in sgn x * of_int m * 2 powi e)"

definition inf_bits :: nat where
  "inf_bits = 0x7FF0000000000000"

definition float64_value :: "nat \<Rightarrow> rat" where
  "float64_value k =
     (let E = k div 2 ^ 52; F = k mod 2 ^ 52
      in if E = 0 then of_nat F * 2 powi (- 1074)
         else of_nat (2 ^ 52 + F) * 2 powi (int E - 1075))"


paragraph \<open>strconv.FormatFloat(f, 'g', -1, 64)\<close>

text \<open>
  With precision -1 the number is written with the smallest number of digits that
  \<^verbatim>\<open>ParseFloat\<close> reads back as the same value. \<open>candidates x nd\<close> are the two decimals of
  \<open>nd\<close> digits next to \<open>x\<close>, the nearer one first, each with the position \<open>dp\<close> of its
  decimal point (the value is \<open>0.digits\<close> times ten to the \<open>dp\<close>); \<open>shortest\<close> tries 1, 2, ...
  digits and takes the first candidate that rounds to the given bits. Format \<open>%e\<close> is
  used when the exponent is below -4 or at least 6 (the precision that decides is 6 for
  the shortest form), format \<open>%f\<close> otherwise.
\<close>

definition candidates :: "rat \<Rightarrow> nat \<Rightarrow> (nat \<times> int) list" where
  "candidates x nd =
     (let dp = ilog 10 x + 1;
          s = x / 10 powi (dp - int nd);
          lo = nat \<lfloor>s\<rfloor>;
          r = s - of_nat lo;
          down = (lo, dp);
          up = (if lo + 1 = 10 ^ nd then (10 ^ (nd - 1), dp + 1) else (lo + 1, dp))
      in if r < 1 / 2 \<or> (r = 1 / 2 \<and> even lo) then [down, up] else [up, down])"

definition decimal_value :: "nat \<Rightarrow> int \<Rightarrow> rat" where
  "decimal_value c dp = of_nat c * 10 powi (dp - int (length (formatBits c)))"

fun shortest :: "nat \<Rightarrow> nat \<Rightarrow> nat \<Rightarrow> nat \<times> int" where
  "shortest 0 nd k = hd (candidates (float64_value k) nd)"
| "shortest (Suc fuel) nd k =
     (case find (\<lambda>(c, dp). float64_nearest (decimal_value c dp) = k)
             (candidates (float64_value k) nd) of
        Some cd \<Rightarrow> cd
      | None \<Rightarrow> shortest fuel (Suc nd) k)"

definition fmtE :: "bool \<Rightarrow> string \<Rightarrow> int \<Rightarrow> string" where
  "fmtE neg ds dp =
     (if neg then ''-'' else [])
     @ [hd ds]
     @ (if 1 < length ds then CHR ''.'' # tl ds else [])
     @ ''e''
     @ (let expo = dp - 1
        in (if expo < 0 then ''-'' else ''+'')
           @ (if \<bar>expo\<bar> < 10 then CHR ''0'' # formatBits (nat \<bar>expo\<bar>) else formatBits (nat \<bar>expo\<bar>)))"

definition fmtF :: "bool \<Rightarrow> string \<Rightarrow> int \<Rightarrow> nat \<Rightarrow> string" where
  "fmtF neg ds dp prec =
     (if neg then ''-'' else [])
     @ (if 0 < dp then take (nat dp) ds @ replicate (nat dp - length ds) (CHR ''0'') else ''0'')
     @ (if 0 < prec
        then CHR ''.'' #
             map (\<lambda>i. let j = dp + int i
                       in if 0 \<le> j \<and> j < int (length ds) then ds ! nat j else CHR ''0'')
               [0 ..< prec]
        else [])"

definition strconv_FormatFloat :: "64 word \<Rightarrow> string" where
  "strconv_FormatFloat f =
     (let bits = unat f;
          neg = (2 ^ 63 \<le> bits);
          k = bits mod 2 ^ 63;
          expo = k div 2 ^ 52;
          mant = k mod 2 ^ 52
      in if expo = 2047 then (if mant \<noteq> 0 then ''NaN'' else if neg then ''-Inf'' else ''+Inf'')
         else if k = 0 then fmtF neg [] 0 0
         else
           let (c, dp) = shortest 1100 1 k;
               ds = formatBits c;
               expo = dp - 1
           in if expo < - 4 \<or> 6 \<le> expo then fmtE neg ds dp
              else fmtF neg ds dp (nat (max (int (length ds) - dp) 0)))"

paragraph \<open>strconv.ParseFloat(s, 64)\<close>

text \<open>
  \<^verbatim>\<open>special\<close> reads the infinities and NaN; \<^verbatim>\<open>readFloat\<close> reads a decimal or hexadecimal
  mantissa and an exponent, with underscores between digits. The mantissa is kept
  exactly (the library falls back to exact decimal arithmetic when its 64-bit mantissa
  drops digits), and the result is the nearest \<^verbatim>\<open>float64\<close>, infinite with a range error
  on overflow. The whole text must be read.
\<close>

fun commonPrefixLenIgnoreCase :: "string \<Rightarrow> string \<Rightarrow> nat" where
  "commonPrefixLenIgnoreCase [] prefix = 0"
| "commonPrefixLenIgnoreCase (c # s) [] = 0"
| "commonPrefixLenIgnoreCase (c # s) (p # prefix) =
     (let c' = (if 65 \<le> byte c \<and> byte c \<le> 90 then char_of (byte c + 32) else c)
      in if c' \<noteq> p then 0 else 1 + commonPrefixLenIgnoreCase s prefix)"

definition float64_NaN :: "64 word" where
  "float64_NaN = 0x7FF8000000000001"

definition float64_Inf :: "bool \<Rightarrow> 64 word" where
  "float64_Inf neg = (if neg then 0xFFF0000000000000 else 0x7FF0000000000000)"

definition special :: "string \<Rightarrow> (64 word \<times> nat) option" where
  "special s0 =
     (if s0 = [] then None
      else
        let signed = (hd s0 = CHR ''+'' \<or> hd s0 = CHR ''-'');
            neg = (hd s0 = CHR ''-'');
            nsign = (if signed then 1 else 0);
            s = (if signed then tl s0 else s0)
        in if signed \<or> hd s0 = CHR ''i'' \<or> hd s0 = CHR ''I'' then
             (let n0 = commonPrefixLenIgnoreCase s ''infinity'';
                  n = (if 3 < n0 \<and> n0 < 8 then 3 else n0)
              in if n = 3 \<or> n = 8 then Some (float64_Inf neg, nsign + n) else None)
           else if hd s0 = CHR ''n'' \<or> hd s0 = CHR ''N'' then
             (if commonPrefixLenIgnoreCase s ''nan'' = 3 then Some (float64_NaN, 3) else None)
           else None)"

fun readMantissa ::
  "nat \<Rightarrow> string \<Rightarrow> bool \<Rightarrow> bool \<Rightarrow> nat \<Rightarrow> int \<Rightarrow> nat \<Rightarrow> bool
     \<Rightarrow> bool \<times> bool \<times> nat \<times> int \<times> nat \<times> bool \<times> string" where
  "readMantissa base [] sawdot sawdigits nd dp mantissa underscores =
     (sawdot, sawdigits, nd, dp, mantissa, underscores, [])"
| "readMantissa base (c # cs) sawdot sawdigits nd dp mantissa underscores =
     (if c = CHR ''_'' then readMantissa base cs sawdot sawdigits nd dp mantissa True
      else if c = CHR ''.'' then
        (if sawdot then (sawdot, sawdigits, nd, dp, mantissa, underscores, c # cs)
         else readMantissa base cs True sawdigits nd (int nd) mantissa underscores)
      else if is_digit c then
        (if c = CHR ''0'' \<and> nd = 0
         then readMantissa base cs sawdot True nd (dp - 1) mantissa underscores
         else readMantissa base cs sawdot True (nd + 1) dp (mantissa * base + (byte c - 48))
                underscores)
      else if base = 16 \<and> 97 \<le> lower c \<and> lower c \<le> 102 then
        readMantissa base cs sawdot True (nd + 1) dp (mantissa * 16 + (lower c - 97 + 10))
          underscores
      else (sawdot, sawdigits, nd, dp, mantissa, underscores, c # cs))"

fun readExponent :: "string \<Rightarrow> nat \<Rightarrow> bool \<Rightarrow> nat \<times> bool \<times> string" where
  "readExponent [] e underscores = (e, underscores, [])"
| "readExponent (c # cs) e underscores =
     (if c = CHR ''_'' then readExponent cs e True
      else if is_digit c
      then readExponent cs (if e < 10000 then e * 10 + (byte c - 48) else e) underscores
      else (e, underscores, c # cs))"

text \<open>The result of readFloat: mantissa, exponent, sign, base and the number of bytes read.\<close>

definition readFloat :: "string \<Rightarrow> (nat \<times> int \<times> bool \<times> nat \<times> nat) option" where
  "readFloat s =
     (if s = [] then None
      else
        let neg = (hd s = CHR ''-'');
            s1 = (if hd s = CHR ''+'' \<or> hd s = CHR ''-'' then tl s else s);
            hex = (2 < length s1 \<and> s1 ! 0 = CHR ''0'' \<and> lower (s1 ! 1) = 120);
            base = (if hex then 16 else 10);
            expChar = (if hex then 112 else 101);
            s2 = (if hex then drop 2 s1 else s1);
            (sawdot, sawdigits, nd, dp0, mantissa, us, s3) =
               readMantissa base s2 False False 0 0 0 False
        in if \<not> sawdigits then None
           else
             let dp1 = (if sawdot then dp0 else int nd);
                 dp2 = (if hex then dp1 * 4 else dp1);
                 ndMant = (if hex then int nd * 4 else int nd)
             in if s3 \<noteq> [] \<and> lower (hd s3) = expChar then
                  (let s4 = tl s3
                   in if s4 = [] then None
                      else
                        let esign = (if hd s4 = CHR ''-'' then - 1 else 1);
                            s5 = (if hd s4 = CHR ''+'' \<or> hd s4 = CHR ''-'' then tl s4 else s4)
                        in if s5 = [] \<or> \<not> is_digit (hd s5) then None
                           else
                             let (e, us', s6) = readExponent s5 0 us;
                                 dp3 = dp2 + int e * esign;
                                 n = length s - length s6
                             in if us' \<and> \<not> underscoreOK (take n s) then None
                                else Some (mantissa, if mantissa \<noteq> 0 then dp3 - ndMant else 0,
                                           neg, base, n))
                else if hex then None
                else
                  let n = length s - length s3
                  in if us \<and> \<not> underscoreOK (take n s) then None
                     else Some (mantissa, if mantissa \<noteq> 0 then dp2 - ndMant else 0, neg, base, n))"

definition signed_bits :: "bool \<Rightarrow> nat \<Rightarrow> 64 word" where
  "signed_bits neg k = of_nat (if neg then 2 ^ 63 + k else k)"

definition strconv_ParseFloat :: "string \<Rightarrow> 64 word \<times> error option" where
  "strconv_ParseFloat s =
     (case special s of
        Some (f, n) \<Rightarrow>
          if n \<noteq> length s then (0, Some (NumError ''ParseFloat'' s ErrSyntax)) else (f, None)
      | None \<Rightarrow>
          (case readFloat s of
             None \<Rightarrow> (0, Some (NumError ''ParseFloat'' s ErrSyntax))
           | Some (mantissa, expo, neg, base, n) \<Rightarrow>
               if n \<noteq> length s then (0, Some (NumError ''ParseFloat'' s ErrSyntax))
               else if mantissa = 0 then (signed_bits neg 0, None)
               else
                 let x = of_nat mantissa * (if base = 16 then 2 powi expo else 10 powi expo);
                     k = float64_nearest x
                 in if inf_bits \<le> k then (float64_Inf neg, Some (NumError ''ParseFloat'' s ErrRange))
                    else (signed_bits neg k, None)))"

paragraph \<open>time.Duration: String and ParseDuration\<close>

text \<open>
  A duration is a count of nanoseconds in an \<^verbatim>\<open>int64\<close>. \<^verbatim>\<open>String\<close> writes hours, minutes
  and seconds with up to nine decimals, or a single smaller unit below one second.
  \<^verbatim>\<open>ParseDuration\<close> sums a sequence of decimal numbers with units; the fraction of a
  number is scaled in \<^verbatim>\<open>float64\<close> arithmetic, each operation rounded. The messages of
  its errors carry the input unquoted here.
\<close>

definition Microsecond :: nat where "Microsecond = 1000"
definition Millisecond :: nat where "Millisecond = 1000 * Microsecond"
definition Second :: nat where "Second = 1000 * Millisecond"
definition Minute :: nat where "Minute = 60 * Second"
definition Hour :: nat where "Hour = 60 * Minute"

fun fmtFrac_loop :: "nat \<Rightarrow> nat \<Rightarrow> bool \<Rightarrow> string \<Rightarrow> string \<times> nat \<times> bool" where
  "fmtFrac_loop 0 v print buf = (buf, v, print)"
| "fmtFrac_loop (Suc i) v print buf =
     (let digit = v mod 10;
          print' = (print \<or> digit \<noteq> 0)
      in fmtFrac_loop i (v div 10) print' (if print' then char_of (48 + digit) # buf else buf))"

definition fmtFrac :: "string \<Rightarrow> nat \<Rightarrow> nat \<Rightarrow> string \<times> nat" where
  "fmtFrac buf v prec =
     (let (buf', v', print) = fmtFrac_loop prec v False buf
      in (if print then CHR ''.'' # buf' else buf', v'))"

definition fmtInt :: "string \<Rightarrow> nat \<Rightarrow> string" where
  "fmtInt buf v = formatBits v @ buf"

definition micro_sign :: string where
  "micro_sign = [CHR 0xC2, CHR 0xB5]"

definition time_Duration_String :: "64 word \<Rightarrow> string" where
  "time_Duration_String d =
     (let neg = (sint d < 0);
          u = (if neg then unat (- d) else unat d)
      in if u < Second then
           (if u = 0 then ''0s''
            else
              (if neg then ''-'' else []) @
              (if u < Microsecond then
                 (let (buf, v) = fmtFrac ''ns'' u 0 in fmtInt buf v)
               else if u < Millisecond then
                 (let (buf, v) = fmtFrac (micro_sign @ ''s'') u 3 in fmtInt buf v)
               else
                 (let (buf, v) = fmtFrac ''ms'' u 6 in fmtInt buf v)))
         else
           (if neg then ''-'' else []) @
           (let (buf, v) = fmtFrac ''s'' u 9;
                buf1 = fmtInt buf (v mod 60);
                v1 = v div 60
            in if 0 < v1 then
                 (let buf2 = fmtInt (CHR ''m'' # buf1) (v1 mod 60);
                      v2 = v1 div 60
                  in if 0 < v2 then fmtInt (CHR ''h'' # buf2) v2 else buf2)
               else buf1))"

definition unitMap :: "(string \<times> nat) list" where
  "unitMap =
     [(''ns'', 1), (''us'', Microsecond), (micro_sign @ ''s'', Microsecond),
      ([CHR 0xCE, CHR 0xBC, CHR ''s''], Microsecond), (''ms'', Millisecond),
      (''s'', Second), (''m'', Minute), (''h'', Hour)]"

fun leadingInt_loop :: "string \<Rightarrow> nat \<Rightarrow> nat option" where
  "leadingInt_loop [] x = Some x"
| "leadingInt_loop (c # cs) x =
     (if 2 ^ 63 div 10 < x then None
      else let x' = x * 10 + (byte c - 48)
           in if 2 ^ 63 < x' then None else leadingInt_loop cs x')"

definition leadingInt :: "string \<Rightarrow> nat option \<times> string" where
  "leadingInt s = (leadingInt_loop (takeWhile is_digit s) 0, dropWhile is_digit s)"

fun leadingFraction_loop :: "string \<Rightarrow> nat \<Rightarrow> rat \<Rightarrow> bool \<Rightarrow> nat \<times> rat" where
  "leadingFraction_loop [] x scale overflow = (x, scale)"
| "leadingFraction_loop (c # cs) x scale overflow =
     (if overflow then leadingFraction_loop cs x scale overflow
      else if (2 ^ 63 - 1) div 10 < x then leadingFraction_loop cs x scale True
      else let y = x * 10 + (byte c - 48)
           in if 2 ^ 63 < y then leadingFraction_loop cs x scale True
              else leadingFraction_loop cs y (float64_round (scale * 10)) False)"

definition leadingFraction :: "string \<Rightarrow> nat \<times> rat \<times> string" where
  "leadingFraction s =
     (let (x, scale) = leadingFraction_loop (takeWhile is_digit s) 0 1 False
      in (x, scale, dropWhile is_digit s))"

definition unit_char :: "char \<Rightarrow> bool" where
  "unit_char c = (c \<noteq> CHR ''.'' \<and> \<not> is_digit c)"

function ParseDuration_loop :: "string \<Rightarrow> string \<Rightarrow> nat \<Rightarrow> error + nat" where
  "ParseDuration_loop orig s d =
     (if s = [] then Inr d
      else if \<not> (hd s = CHR ''.'' \<or> is_digit (hd s))
      then Inl (errorString (''time: invalid duration '' @ orig))
      else
        (case leadingInt s of
           (None, s1) \<Rightarrow> Inl (errorString (''time: invalid duration '' @ orig))
         | (Some v, s1) \<Rightarrow>
             let pre = (length s \<noteq> length s1);
                 dot = (s1 \<noteq> [] \<and> hd s1 = CHR ''.'');
                 (f, scale, s2) = (if dot then leadingFraction (tl s1) else (0, 1, s1));
                 post = (dot \<and> length (tl s1) \<noteq> length s2)
             in if \<not> pre \<and> \<not> post then Inl (errorString (''time: invalid duration '' @ orig))
                else
                  let u = takeWhile unit_char s2;
                      s3 = dropWhile unit_char s2
                  in if u = [] then Inl (errorString (''time: missing unit in duration '' @ orig))
                     else
                       (case map_of unitMap u of
                          None \<Rightarrow>
                            Inl (errorString (''time: unknown unit '' @ u @ '' in duration '' @ orig))
                        | Some unit \<Rightarrow>
                            if 2 ^ 63 div unit < v
                            then Inl (errorString (''time: invalid duration '' @ orig))
                            else
                              let v1 = v * unit;
                                  v2 = (if 0 < f
                                        then (v1 + nat \<lfloor>float64_round (float64_round (of_nat f)
                                                 * float64_round (float64_round (of_nat unit) / scale))\<rfloor>)
                                             mod 2 ^ 64
                                        else v1)
                              in if 0 < f \<and> 2 ^ 63 < v2
                                 then Inl (errorString (''time: invalid duration '' @ orig))
                                 else
                                   let d' = (d + v2) mod 2 ^ 64
                                   in if 2 ^ 63 < d'
                                      then Inl (errorString (''time: invalid duration '' @ orig))
                                      else ParseDuration_loop orig s3 d')))"
  by pat_completeness auto
termination
proof -
  have lt: "length (dropWhile P xs) < length xs" if "takeWhile P xs \<noteq> []"
    for P and xs :: string
    using that by (cases xs) (auto simp: less_Suc_eq_le length_dropWhile_le split: if_splits)
  have le: "length (dropWhile is_digit (tl (dropWhile is_digit xs))) \<le> length xs"
    for xs :: string
  proof -
    have "length (dropWhile is_digit (tl (dropWhile is_digit xs)))
        \<le> length (tl (dropWhile is_digit xs))"
      by (rule length_dropWhile_le)
    also have "\<dots> \<le> length (dropWhile is_digit xs)" by simp
    also have "\<dots> \<le> length xs" by (rule length_dropWhile_le)
    finally show ?thesis .
  qed
  have F1: "length (dropWhile unit_char (dropWhile is_digit (tl (dropWhile is_digit xs))))
      < length xs"
    if "takeWhile unit_char (dropWhile is_digit (tl (dropWhile is_digit xs))) \<noteq> []"
    for xs :: string
    using lt [OF that] le [of xs] by simp
  have F2: "length (dropWhile unit_char (dropWhile is_digit xs)) < length xs"
    if "takeWhile unit_char (dropWhile is_digit xs) \<noteq> []" for xs :: string
    using lt [OF that] length_dropWhile_le [of is_digit xs] by simp
  show ?thesis
    by (relation "measure (\<lambda>(orig, s, d). length s)")
      (auto simp: leadingInt_def leadingFraction_def F1 F2 split: if_splits prod.splits)
qed

definition time_ParseDuration :: "string \<Rightarrow> 64 word \<times> error option" where
  "time_ParseDuration orig =
     (let neg = (orig \<noteq> [] \<and> hd orig = CHR ''-'');
          s = (if orig \<noteq> [] \<and> (hd orig = CHR ''-'' \<or> hd orig = CHR ''+'') then tl orig else orig)
      in if s = ''0'' then (0, None)
         else if s = [] then (0, Some (errorString (''time: invalid duration '' @ orig)))
         else
           (case ParseDuration_loop orig s 0 of
              Inl err \<Rightarrow> (0, Some err)
            | Inr d \<Rightarrow>
                if neg then (- of_nat d, None)
                else if 2 ^ 63 - 1 < d
                then (0, Some (errorString (''time: invalid duration '' @ orig)))
                else (of_nat d, None)))"


text \<open>The standard library as the parameter of the two variants.\<close>

definition go_library :: extlib where
  "go_library =
     \<lparr>ParseFloat = strconv_ParseFloat, FormatFloat = strconv_FormatFloat,
      ParseDuration = time_ParseDuration, Duration_String = time_Duration_String\<rparr>"

section \<open>Properties\<close>

subsection \<open>Auxiliary notions\<close>

text \<open>The state an outcome leaves, and the keys of a map.\<close>

definition state_of :: "'a outcome \<Rightarrow> world" where
  "state_of r = (case r of Panic _ w \<Rightarrow> w | Return _ w \<Rightarrow> w)"

definition names :: "(string \<times> Config) list \<Rightarrow> string set" where
  "names m = fst ` set m"

text \<open>
  The operations that define configs and set them, as data, and a program that applies a
  list of them to one config set; a panic ends the program.
\<close>

datatype op =
    Op_Var Value string string
  | Op_Set string string
  | Op_BoolVar addr string bool string
  | Op_Bool string bool string
  | Op_IntVar addr string "64 word" string
  | Op_Int string "64 word" string
  | Op_Int64Var addr string "64 word" string
  | Op_Int64 string "64 word" string
  | Op_UintVar addr string "64 word" string
  | Op_Uint string "64 word" string
  | Op_Uint64Var addr string "64 word" string
  | Op_Uint64 string "64 word" string
  | Op_StringVar addr string string string
  | Op_String string string string
  | Op_Float64Var extlib addr string "64 word" string
  | Op_Float64 extlib string "64 word" string
  | Op_DurationVar extlib addr string "64 word" string
  | Op_Duration extlib string "64 word" string

definition discard :: "'a outcome \<Rightarrow> unit outcome" where
  "discard r = (case r of Panic msg w \<Rightarrow> Panic msg w | Return _ w \<Rightarrow> Return () w)"

fun step :: "nat \<Rightarrow> op \<Rightarrow> world \<Rightarrow> unit outcome" where
  "step f (Op_Var v name usage) w = ConfigSet_Var f v name usage w"
| "step f (Op_Set name val) w = discard (ConfigSet_Set f name val w)"
| "step f (Op_BoolVar p name val usage) w = ConfigSet_BoolVar f p name val usage w"
| "step f (Op_Bool name val usage) w = discard (ConfigSet_Bool f name val usage w)"
| "step f (Op_IntVar p name val usage) w = ConfigSet_IntVar f p name val usage w"
| "step f (Op_Int name val usage) w = discard (ConfigSet_Int f name val usage w)"
| "step f (Op_Int64Var p name val usage) w = ConfigSet_Int64Var f p name val usage w"
| "step f (Op_Int64 name val usage) w = discard (ConfigSet_Int64 f name val usage w)"
| "step f (Op_UintVar p name val usage) w = ConfigSet_UintVar f p name val usage w"
| "step f (Op_Uint name val usage) w = discard (ConfigSet_Uint f name val usage w)"
| "step f (Op_Uint64Var p name val usage) w = ConfigSet_Uint64Var f p name val usage w"
| "step f (Op_Uint64 name val usage) w = discard (ConfigSet_Uint64 f name val usage w)"
| "step f (Op_StringVar p name val usage) w = ConfigSet_StringVar f p name val usage w"
| "step f (Op_String name val usage) w = discard (ConfigSet_String f name val usage w)"
| "step f (Op_Float64Var L p name val usage) w = ConfigSet_Float64Var L f p name val usage w"
| "step f (Op_Float64 L name val usage) w = discard (ConfigSet_Float64 L f name val usage w)"
| "step f (Op_DurationVar L p name val usage) w = ConfigSet_DurationVar L f p name val usage w"
| "step f (Op_Duration L name val usage) w = discard (ConfigSet_Duration L f name val usage w)"

fun run :: "nat \<Rightarrow> op list \<Rightarrow> world \<Rightarrow> unit outcome" where
  "run f [] w = Return () w"
| "run f (x # xs) w =
     (case step f x w of Panic msg w' \<Rightarrow> Panic msg w' | Return _ w' \<Rightarrow> run f xs w')"

text \<open>The invariant of a config set: every name that was set is registered.\<close>

definition actual_subset_formal :: "nat \<Rightarrow> world \<Rightarrow> bool" where
  "actual_subset_formal g w = (names (actual (sets w g)) \<subseteq> names (formal (sets w g)))"

text \<open>
  For \<open>Save\<close>: the line written for a config, the maps whose keys are the names of their
  configs (as \<open>Var\<close> builds them), and the configs of such a map in the order of their names.
\<close>

definition Save_line :: "Config \<Rightarrow> heap \<Rightarrow> string" where
  "Save_line c h = Name c @ ''='' @ Value_String (Value c) h @ '' # '' @ Usage c @ ''\<newline>''"

definition keys_are_names :: "(string \<times> Config) list \<Rightarrow> bool" where
  "keys_are_names m = list_all (\<lambda>(k, c). Name c = k) m"

definition configs_by_name :: "(string \<times> Config) list \<Rightarrow> Config list" where
  "configs_by_name m = map (\<lambda>n. the (map_of m n)) (sort (map fst m))"

text \<open>
  For \<open>Load\<close>: the part of a line before its first \<open>#\<close>; the key and the value of a line
  whose remainder has exactly one \<open>=\<close>; and what the loop does with the result of \<open>Set\<close>.
\<close>

definition strip_comment :: "string \<Rightarrow> string" where
  "strip_comment line = takeWhile (\<lambda>c. c \<noteq> CHR ''#'') line"

definition line_key_value :: "string \<Rightarrow> (string \<times> string) option" where
  "line_key_value line =
     (let r = strip_comment line
      in if count_list r (CHR ''='') = 1
         then Some (TrimSpace (takeWhile (\<lambda>c. c \<noteq> CHR ''='') r),
                    Trim (TrimSpace (tl (dropWhile (\<lambda>c. c \<noteq> CHR ''='') r))) (CHR 0x22))
         else None)"

definition after_Set :: "error option outcome \<Rightarrow> unit outcome" where
  "after_Set r =
     (case r of
        Panic msg w' \<Rightarrow> Panic msg w'
      | Return None w' \<Rightarrow> Return () w'
      | Return (Some e) w' \<Rightarrow>
          Return () (Printf [Text ''f.Set returned err='', ErrorV e, Text ''\<newline>''] w'))"

text \<open>
  The reading of a line as the specification words it: the remainder is split at its
  first \<open>=\<close>, both parts are trimmed, and one layer of double quotes around the value is
  removed.
\<close>

definition strip_one_quote_layer :: "string \<Rightarrow> string" where
  "strip_one_quote_layer s =
     (if 2 \<le> length s \<and> hd s = CHR 0x22 \<and> last s = CHR 0x22 then butlast (tl s) else s)"

definition spec_key_value :: "string \<Rightarrow> (string \<times> string) option" where
  "spec_key_value line =
     (let r = strip_comment line
      in if CHR ''='' \<in> set r
         then Some (TrimSpace (takeWhile (\<lambda>c. c \<noteq> CHR ''='') r),
                    strip_one_quote_layer (TrimSpace (tl (dropWhile (\<lambda>c. c \<noteq> CHR ''='') r))))
         else None)"

subsection \<open>What Var and Set do to the state\<close>

lemma Var_fresh:
  "map_of (formal (sets w f)) name = None \<Longrightarrow>
   ConfigSet_Var f v name usage w =
     Return () (w\<lparr>sets := (sets w)(f := (sets w f)\<lparr>formal :=
        AList.update name \<lparr>Name = name, Usage = usage, Value = v, DefValue = Value_String v (mem w)\<rparr>
          (formal (sets w f))\<rparr>)\<rparr>)"
  by (simp add: ConfigSet_Var_def)

lemma Var_taken:
  "map_of (formal (sets w f)) name = Some c \<Longrightarrow>
   \<exists>msg. ConfigSet_Var f v name usage w = Panic msg (Println msg w)"
  by (simp add: ConfigSet_Var_def Let_def)

lemma Set_unregistered:
  assumes "map_of (formal (sets w f)) name = None"
  shows "ConfigSet_Set f name s w =
     Return None (Printf [Text ''Added config (string) '', Text name, Text '' = '', Text s, Text ''\<newline>'']
       (w\<lparr>mem := (mem w)\<lparr>brk := Suc (brk (mem w)), strings := (strings (mem w))(brk (mem w) := s)\<rparr>,
          sets := (sets w)(f := (sets w f)\<lparr>formal :=
            AList.update name \<lparr>Name = name, Usage = [], Value = stringValue (brk (mem w)), DefValue = s\<rparr>
              (formal (sets w f))\<rparr>)\<rparr>))"
  using assms
  by (simp add: ConfigSet_Set_def ConfigSet_String_def ConfigSet_StringVar_def new_string_def
      newStringValue_def ConfigSet_Var_def stringValue_def stringValue_String_def Printf_def)

lemma Set_registered:
  assumes "map_of (formal (sets w f)) name = Some c"
  shows "ConfigSet_Set f name s w =
     (case Value_Set (Value c) s (mem w) of
        (Some e, h) \<Rightarrow> Return (Some e) (w\<lparr>mem := h\<rparr>)
      | (None, h) \<Rightarrow> Return None (w\<lparr>mem := h, sets := (sets w)(f := (sets w f)\<lparr>actual :=
            AList.update name c (actual (sets w f))\<rparr>)\<rparr>))"
  using assms
  by (simp add: ConfigSet_Set_def split: prod.splits option.splits)


lemma ParseBool_error: "ParseBool s = (v, Some e) \<Longrightarrow> v = False"
  by (auto simp: ParseBool_def split: if_splits)

lemma boolValue_Set_error:
  "Value_Set (boolValue p) s h0 = (Some e, h) \<Longrightarrow> h = h0\<lparr>bools := (bools h0)(p := False)\<rparr>"
  by (auto simp: boolValue_def boolValue_Set_def dest: ParseBool_error split: prod.splits)

lemma names_update: "names (AList.update k v al) = insert k (names al)"
  by (simp add: names_def dom_update)

lemma map_of_None_names: "map_of al k = None \<longleftrightarrow> k \<notin> names al"
  by (simp add: names_def map_of_eq_None_iff)

lemma length_card_names: "distinct (map fst al) \<Longrightarrow> length al = card (names al)"
  by (metis distinct_card length_map names_def set_map)

lemma world0_sets:
  "sets world0 Configuration = \<lparr>filename = [], parsed = False, actual = [], formal = []\<rparr>"
  by (simp add: world0_def NewConfigSet_def Configuration_def)

lemma world0_mem: "mem world0 = heap0"
  by (simp add: world0_def NewConfigSet_def)

text \<open>The initial state with one bool config \<open>b\<close>, bound to the variable at address 0 and set to true.\<close>

lemma BoolVar_world0:
  "ConfigSet_BoolVar Configuration 0 ''b'' True ''u'' world0 =
     Return () (world0\<lparr>mem := heap0\<lparr>bools := (bools heap0)(0 := True)\<rparr>,
        sets := (sets world0)(Configuration := (sets world0 Configuration)\<lparr>formal :=
          [(''b'', \<lparr>Name = ''b'', Usage = ''u'', Value = boolValue 0, DefValue = ''true''\<rparr>)]\<rparr>)\<rparr>)"
  by (simp add: ConfigSet_BoolVar_def newBoolValue_def ConfigSet_Var_def world0_def NewConfigSet_def
      Configuration_def boolValue_def boolValue_String_def FormatBool_def heap0_def)

subsection \<open>The invariant is kept by every operation\<close>

lemma state_of_discard [simp]: "state_of (discard r) = state_of r"
  by (cases r) (simp_all add: discard_def state_of_def)

lemma state_of_rename [simp]:
  "state_of (case r of Panic msg w' \<Rightarrow> Panic msg w' | Return x w' \<Rightarrow> Return p w') = state_of r"
  by (cases r) (simp_all add: state_of_def)

lemma inv_mem [simp]: "actual_subset_formal g (w\<lparr>mem := h\<rparr>) = actual_subset_formal g w"
  by (simp add: actual_subset_formal_def)

lemma Var_inv:
  assumes "actual_subset_formal g w"
  shows "actual_subset_formal g (state_of (ConfigSet_Var f v name usage w))"
proof (cases "map_of (formal (sets w f)) name")
  case None
  show ?thesis
    unfolding Var_fresh [OF None] using assms
    by (auto simp: state_of_def actual_subset_formal_def names_update)
next
  case (Some c)
  from Var_taken [OF this, of v usage] show ?thesis using assms
    by (auto simp: state_of_def actual_subset_formal_def Println_def Printf_def)
qed

lemma Set_inv:
  assumes "actual_subset_formal g w"
  shows "actual_subset_formal g (state_of (ConfigSet_Set f name s w))"
proof (cases "map_of (formal (sets w f)) name")
  case None
  show ?thesis
    unfolding Set_unregistered [OF None] using assms
    by (auto simp: state_of_def actual_subset_formal_def names_update Printf_def)
next
  case (Some c)
  then have "name \<in> names (formal (sets w f))"
    using map_of_None_names [of "formal (sets w f)" name] by simp
  then show ?thesis
    unfolding Set_registered [OF Some] using assms
    by (auto simp: state_of_def actual_subset_formal_def names_update
        split: prod.splits option.splits)
qed

lemma step_inv:
  "actual_subset_formal g w \<Longrightarrow> actual_subset_formal g (state_of (step f x w))"
  by (cases x)
    (simp_all add: Var_inv Set_inv
      ConfigSet_BoolVar_def ConfigSet_Bool_def newBoolValue_def new_bool_def
      ConfigSet_IntVar_def ConfigSet_Int_def newIntValue_def new_int_def
      ConfigSet_Int64Var_def ConfigSet_Int64_def newInt64Value_def new_int64_def
      ConfigSet_UintVar_def ConfigSet_Uint_def newUintValue_def new_uint_def
      ConfigSet_Uint64Var_def ConfigSet_Uint64_def newUint64Value_def new_uint64_def
      ConfigSet_StringVar_def ConfigSet_String_def newStringValue_def new_string_def
      ConfigSet_Float64Var_def ConfigSet_Float64_def newFloat64Value_def new_float64_def
      ConfigSet_DurationVar_def ConfigSet_Duration_def newDurationValue_def new_duration_def)

lemma run_inv:
  "actual_subset_formal g w \<Longrightarrow> actual_subset_formal g (state_of (run f xs w))"
proof (induction xs arbitrary: w)
  case Nil
  then show ?case by (simp add: state_of_def)
next
  case (Cons x xs)
  have inv: "actual_subset_formal g (state_of (step f x w))"
    by (rule step_inv [OF Cons.prems])
  show ?case
  proof (cases "step f x w")
    case (Panic msg w')
    with inv show ?thesis by (simp add: state_of_def)
  next
    case (Return u w')
    with inv have "actual_subset_formal g w'" by (simp add: state_of_def)
    from Cons.IH [OF this] Return show ?thesis by simp
  qed
qed

subsection \<open>What Save writes\<close>

lemma keys_are_names_map: "keys_are_names m \<Longrightarrow> map (\<lambda>(k, f). Name f) m = map fst m"
  by (induction m) (auto simp: keys_are_names_def)

lemma sortConfigs_keys_are_names:
  assumes "keys_are_names m"
  shows "sortConfigs m = map Some (configs_by_name m)"
proof -
  have "map_of m n = Some (the (map_of m n))" if "n \<in> set (sort (map fst m))" for n
  proof -
    from that have "n \<in> fst ` set m" by simp
    then have "map_of m n \<noteq> None" by (simp add: map_of_eq_None_iff)
    then show ?thesis by simp
  qed
  then show ?thesis
    by (simp add: sortConfigs_def configs_by_name_def keys_are_names_map [OF assms])
qed

lemma visit_loop_Save:
  "fs w out = Regular content \<Longrightarrow>
   visit_loop (Save_visitor out) (map Some cs) w =
     Return () (w\<lparr>fs := (fs w)(out := Regular (content @ concat (map (\<lambda>c. Save_line c (mem w)) cs)))\<rparr>)"
proof (induction cs arbitrary: w content)
  case Nil
  then have "(fs w)(out := Regular content) = fs w" by auto
  then show ?case by simp
next
  case (Cons c cs)
  let ?w' = "w\<lparr>fs := (fs w)(out := Regular (content @ Save_line c (mem w)))\<rparr>"
  have 1: "Save_visitor out (Some c) w = Return () ?w'"
    using Cons.prems by (simp add: Save_visitor_def Fprintf_def Save_line_def)
  have 2: "fs ?w' out = Regular (content @ Save_line c (mem w))" by simp
  have "visit_loop (Save_visitor out) (map Some (c # cs)) w
      = visit_loop (Save_visitor out) (map Some cs) ?w'"
    by (simp add: 1)
  also have "\<dots> = Return () (?w'\<lparr>fs := (fs ?w')(out := Regular ((content @ Save_line c (mem w))
        @ concat (map (\<lambda>c. Save_line c (mem ?w')) cs)))\<rparr>)"
    by (rule Cons.IH [OF 2])
  also have "\<dots> = Return () (w\<lparr>fs := (fs w)(out := Regular (content
        @ concat (map (\<lambda>c. Save_line c (mem w)) (c # cs))))\<rparr>)"
    by simp
  finally show ?case .
qed

lemma Save_writes_Configuration:
  assumes fn: "filename (sets w f) \<noteq> []"
    and acc: "fs w (filename (sets w f)) \<noteq> Inaccessible"
    and keys: "keys_are_names (formal (sets w Configuration))"
  shows "\<exists>w'. ConfigSet_Save f w = Return () w'
           \<and> fs w' (filename (sets w f)) =
               Regular (concat (map (\<lambda>c. Save_line c (mem w))
                 (configs_by_name (formal (sets w Configuration)))))
           \<and> sets w' = sets w \<and> mem w' = mem w"
proof -
  let ?path = "filename (sets w f)"
  let ?w1 = "Printf [Text ''Writing config to '', Text ?path, Text ''\<newline>''] w"
  let ?w2 = "?w1\<lparr>fs := (fs ?w1)(?path := Regular [])\<rparr>"
  have c: "os_Create ?path ?w1 = Inr ?w2"
    using acc by (cases "fs w ?path") (simp_all add: os_Create_def Printf_def)
  have s: "sets ?w2 = sets w" and m: "mem ?w2 = mem w"
    by (simp_all add: Printf_def)
  have r: "fs ?w2 ?path = Regular []" by simp
  have v: "VisitAll (Save_visitor ?path) ?w2 =
      Return () (?w2\<lparr>fs := (fs ?w2)(?path := Regular ([] @ concat (map (\<lambda>c. Save_line c (mem ?w2))
         (configs_by_name (formal (sets w Configuration))))))\<rparr>)"
    unfolding VisitAll_def ConfigSet_VisitAll_def s sortConfigs_keys_are_names [OF keys]
    by (rule visit_loop_Save [OF r])
  show ?thesis
    unfolding ConfigSet_Save_def using fn
    by (simp add: Let_def c v) (simp add: Printf_def)
qed


subsection \<open>Evaluation of the parsers\<close>

lemma ParseInt_42: "ParseInt ''42'' 0 64 = (42, None)"
  by (simp add: ParseInt_def ParseUint_def maxUint64_def is_digit_def is_letter_def byte_def lower_def)

subsection \<open>Splitting and trimming\<close>

lemma Split_not_Nil: "Split s c \<noteq> []"
  by (induction s) (auto split: list.splits)

lemma Split_length: "length (Split s c) = Suc (count_list s c)"
  by (induction s) (auto simp: Split_not_Nil split: list.splits)

lemma Split_no_sep: "c \<notin> set s \<Longrightarrow> Split s c = [s]"
  by (induction s) auto

lemma Split_one_sep:
  "count_list s c = 1 \<Longrightarrow>
   Split s c = [takeWhile (\<lambda>x. x \<noteq> c) s, tl (dropWhile (\<lambda>x. x \<noteq> c) s)]"
proof (induction s)
  case Nil
  then show ?case by simp
next
  case (Cons x s)
  show ?case
  proof (cases "x = c")
    case True
    with Cons.prems have "count_list s c = 0" by simp
    then have "c \<notin> set s" by (simp add: count_list_0_iff)
    with True show ?thesis by (simp add: Split_no_sep)
  next
    case False
    with Cons.prems have "count_list s c = 1" by simp
    from Cons.IH [OF this] False show ?thesis by simp
  qed
qed

lemma Index_take:
  "(if Index line c > - 1 then take (nat (Index line c)) line else line) = takeWhile (\<lambda>x. x \<noteq> c) line"
proof (cases "c \<in> set line")
  case True
  then show ?thesis by (simp add: Index_def takeWhile_eq_take [symmetric])
next
  case False
  then have eq: "takeWhile (\<lambda>x. x \<noteq> c) line = line" by auto
  from False show ?thesis by (simp add: Index_def eq)
qed

lemma Trim_ends: "Trim s c = [] \<or> (hd (Trim s c) \<noteq> c \<and> last (Trim s c) \<noteq> c)"
proof -
  let ?r = "trimRightByte s c"
  have r: "?r = [] \<or> last ?r \<noteq> c"
  proof (cases "dropWhile (\<lambda>x. x = c) (rev s)")
    case Nil
    then show ?thesis by (simp add: trimRightByte_def)
  next
    case (Cons y ys)
    then have "y \<noteq> c" using hd_dropWhile [of "\<lambda>x. x = c" "rev s"] by auto
    with Cons show ?thesis by (simp add: trimRightByte_def)
  qed
  show ?thesis
  proof (cases "dropWhile (\<lambda>x. x = c) ?r")
    case Nil
    then show ?thesis by (simp add: Trim_def trimLeftByte_def)
  next
    case (Cons y ys)
    then have "y \<noteq> c" using hd_dropWhile [of "\<lambda>x. x = c" ?r] by auto
    moreover have "last (dropWhile (\<lambda>x. x = c) ?r) = last ?r"
      using Cons by (metis last_appendR list.distinct(1) takeWhile_dropWhile_id)
    moreover have "?r \<noteq> []" using Cons by auto
    ultimately show ?thesis using Cons r by (simp add: Trim_def trimLeftByte_def)
  qed
qed

text \<open>No white-space rune beyond ASCII starts or ends with an ASCII byte.\<close>

lemma space_runes_high:
  "list_all (\<lambda>p. p \<noteq> [] \<and> 128 \<le> byte (hd p) \<and> 128 \<le> byte (last p)) space_runes"
  by (simp add: space_runes_def byte_def upt_conv_Cons)

lemma leading_space_ascii:
  assumes "byte c < 128"
  shows "leading_space (c # s) = (if asciiSpace c then 1 else 0)"
proof -
  have "find (\<lambda>p. take (length p) (c # s) = p) space_runes = None"
  proof (clarsimp simp: find_None_iff)
    fix p assume p: "p \<in> set space_runes" and t: "take (length p) (c # s) = p"
    from p space_runes_high have "p \<noteq> []" and h: "128 \<le> byte (hd p)"
      by (auto simp: list_all_iff)
    then obtain x xs where "p = x # xs" by (cases p) auto
    with t have "x = c" by simp
    with \<open>p = x # xs\<close> h assms show False by simp
  qed
  then show ?thesis by (simp add: leading_space_def)
qed

lemma trailing_space_ascii:
  assumes "s \<noteq> []" and "byte (last s) < 128"
  shows "trailing_space s = (if asciiSpace (last s) then 1 else 0)"
proof -
  have "find (\<lambda>p. length p \<le> length s \<and> drop (length s - length p) s = p) space_runes = None"
  proof (clarsimp simp: find_None_iff)
    fix p assume p: "p \<in> set space_runes" and l: "length p \<le> length s"
      and t: "drop (length s - length p) s = p"
    from p space_runes_high have ne: "p \<noteq> []" and h: "128 \<le> byte (last p)"
      by (auto simp: list_all_iff)
    from ne assms(1) have "length s - length p < length s"
      by (cases p; cases s) simp_all
    then have "last (drop (length s - length p) s) = last s"
      by (rule last_drop)
    with t have "last p = last s" by simp
    with h assms show False by simp
  qed
  with assms show ?thesis by (simp add: trailing_space_def)
qed

subsection \<open>The loop of Load\<close>

lemma Load_body_key_value:
  "Load_body f line w =
     (case line_key_value line of
        None \<Rightarrow> Return () w
      | Some (key, val) \<Rightarrow> after_Set (ConfigSet_Set f key val w))"
proof -
  let ?r = "strip_comment line"
  have body: "Load_body f line w =
     (let kv = Split ?r (CHR ''='')
      in if length kv = 2 then
           after_Set (ConfigSet_Set f (TrimSpace (kv ! 0)) (Trim (TrimSpace (kv ! 1)) (CHR 0x22)) w)
         else Return () w)"
    unfolding Load_body_def Let_def Index_take strip_comment_def after_Set_def
    by (simp split: outcome.splits option.splits)
  show ?thesis
  proof (cases "count_list ?r (CHR ''='') = 1")
    case True
    then show ?thesis
      by (simp add: body line_key_value_def Split_length Split_one_sep Let_def)
  next
    case False
    then show ?thesis
      by (simp add: body line_key_value_def Split_length Let_def)
  qed
qed

lemma Set_returns: "\<exists>err w'. ConfigSet_Set f name s w = Return err w'"
proof (cases "map_of (formal (sets w f)) name")
  case None
  then show ?thesis by (simp add: Set_unregistered)
next
  case (Some c)
  then show ?thesis
    by (auto simp: Set_registered split: prod.splits option.splits)
qed

lemma after_Set_returns: "r = Return err w' \<Longrightarrow> \<exists>w''. after_Set r = Return () w''"
  by (cases err) (simp_all add: after_Set_def)

lemma Load_body_returns: "\<exists>w'. Load_body f line w = Return () w'"
proof (cases "line_key_value line")
  case None
  then show ?thesis by (simp add: Load_body_key_value)
next
  case (Some kv)
  obtain key val where kv: "kv = (key, val)" by (cases kv)
  from Set_returns obtain err w' where "ConfigSet_Set f key val w = Return err w'" by blast
  from after_Set_returns [OF this] Some kv show ?thesis
    by (simp add: Load_body_key_value)
qed

lemma Load_loop_returns: "\<exists>w'. Load_loop f lines w = Return () w'"
proof (induction lines arbitrary: w)
  case Nil
  then show ?case by simp
next
  case (Cons line lines)
  from Load_body_returns obtain w1 where "Load_body f line w = Return () w1" by blast
  with Cons.IH [of w1] show ?case by simp
qed

lemma Load_loop_append:
  "Load_loop f pre w = Return () w1 \<Longrightarrow> Load_loop f (pre @ rest) w = Load_loop f rest w1"
proof (induction pre arbitrary: w)
  case Nil
  then show ?case by simp
next
  case (Cons line pre)
  from Load_body_returns obtain w0 where b: "Load_body f line w = Return () w0" by blast
  with Cons.prems have "Load_loop f pre w0 = Return () w1" by simp
  from Cons.IH [OF this] b show ?case by simp
qed

lemma Load_returns: "\<exists>w'. ConfigSet_Load f w = Return () w'"
  by (auto simp: ConfigSet_Load_def Let_def Load_loop_returns split: sum.splits)

lemma Load_body_failing:
  assumes "line_key_value line = Some (key, val)"
    and "ConfigSet_Lookup f key w = Some c"
    and "Value_Set (Value c) val (mem w) = (Some e, h)"
  shows "Load_body f line w =
     Return () (Printf [Text ''f.Set returned err='', ErrorV e, Text ''\<newline>''] (w\<lparr>mem := h\<rparr>))"
proof -
  from assms(2) have "map_of (formal (sets w f)) key = Some c"
    by (simp add: ConfigSet_Lookup_def)
  from Set_registered [OF this, of val] assms(3)
  have "ConfigSet_Set f key val w = Return (Some e) (w\<lparr>mem := h\<rparr>)" by simp
  with assms(1) show ?thesis
    by (simp add: Load_body_key_value after_Set_def)
qed

subsection \<open>Evaluation of lines\<close>

lemmas eval_line = line_key_value_def strip_comment_def TrimSpace_def leading_space_ascii
  trailing_space_ascii asciiSpace_def byte_def Trim_def trimLeftByte_def trimRightByte_def

lemma kv1: "line_key_value ''b = true'' = Some (''b'', ''true'')"
  by (simp add: eval_line)

lemma kv2: "line_key_value ''b = maybe'' = Some (''b'', ''maybe'')"
  by (simp add: eval_line)

lemma kv3: "line_key_value ''a=b=c'' = None"
  by (simp add: eval_line)

lemma kv4: "line_key_value [CHR ''k'', CHR ''='', CHR 0x22, CHR 0x22, CHR ''v'', CHR 0x22, CHR 0x22] = Some (''k'', ''v'')"
  by (simp add: eval_line)

lemma skv3: "spec_key_value ''a=b=c'' = Some (''a'', ''b=c'')"
  by (simp add: spec_key_value_def strip_one_quote_layer_def eval_line)

lemma skv4: "spec_key_value [CHR ''k'', CHR ''='', CHR 0x22, CHR 0x22, CHR ''v'', CHR 0x22, CHR 0x22]
   = Some (''k'', [CHR 0x22, CHR ''v'', CHR 0x22])"
  by (simp add: spec_key_value_def strip_one_quote_layer_def eval_line)

lemma scan2: "Scan ''b = true\<newline>b = maybe\<newline>'' = [''b = true'', ''b = maybe'']"
  by (simp add: MaxScanTokenSize_def dropCR_def)

lemma scan1: "Scan ''b = true\<newline>'' = [''b = true'']"
  by (simp add: MaxScanTokenSize_def dropCR_def)


lemma BoolVar_False_world0:
  "ConfigSet_BoolVar Configuration 0 ''b'' False ''u'' w =
     (if map_of (formal (sets w Configuration)) ''b'' = None then
        Return () (w\<lparr>mem := (mem w)\<lparr>bools := (bools (mem w))(0 := False)\<rparr>,
          sets := (sets w)(Configuration := (sets w Configuration)\<lparr>formal :=
            AList.update ''b'' \<lparr>Name = ''b'', Usage = ''u'', Value = boolValue 0, DefValue = ''false''\<rparr>
              (formal (sets w Configuration))\<rparr>)\<rparr>)
      else ConfigSet_BoolVar Configuration 0 ''b'' False ''u'' w)"
  by (simp add: ConfigSet_BoolVar_def newBoolValue_def ConfigSet_Var_def
      boolValue_def boolValue_String_def FormatBool_def)

subsection \<open>The order of the lines of Save, and maps keyed by name\<close>

lemma configs_by_name_Names:
  assumes "keys_are_names m"
  shows "map Name (configs_by_name m) = sort (map fst m)"
proof -
  have "Name (the (map_of m n)) = n" if "n \<in> set (sort (map fst m))" for n
  proof -
    from that have "n \<in> fst ` set m" by simp
    then obtain c where c: "map_of m n = Some c"
      by (cases "map_of m n") (auto simp: map_of_eq_None_iff)
    then have "(n, c) \<in> set m" by (rule map_of_SomeD)
    with assms have "Name c = n" by (auto simp: keys_are_names_def list_all_iff)
    with c show ?thesis by simp
  qed
  then have "map (\<lambda>n. Name (the (map_of m n))) (sort (map fst m)) = map (\<lambda>n. n) (sort (map fst m))"
    by (intro map_cong) auto
  then show ?thesis by (simp add: configs_by_name_def comp_def)
qed

lemma keys_are_names_update:
  "keys_are_names m \<Longrightarrow> Name c = k \<Longrightarrow> keys_are_names (AList.update k c m)"
  by (induction m) (auto simp: keys_are_names_def)

lemma Var_keys:
  assumes "keys_are_names (formal (sets w g))"
  shows "keys_are_names (formal (sets (state_of (ConfigSet_Var f v name usage w)) g))"
proof (cases "map_of (formal (sets w f)) name")
  case None
  show ?thesis
    unfolding Var_fresh [OF None] using assms
    by (auto simp: state_of_def keys_are_names_update)
next
  case (Some c)
  from Var_taken [OF this, of v usage] show ?thesis using assms
    by (auto simp: state_of_def Println_def Printf_def)
qed

lemma Set_keys:
  assumes "keys_are_names (formal (sets w g))"
  shows "keys_are_names (formal (sets (state_of (ConfigSet_Set f name s w)) g))"
proof (cases "map_of (formal (sets w f)) name")
  case None
  show ?thesis
    unfolding Set_unregistered [OF None] using assms
    by (auto simp: state_of_def keys_are_names_update Printf_def)
next
  case (Some c)
  show ?thesis
    unfolding Set_registered [OF Some] using assms
    by (auto simp: state_of_def split: prod.splits option.splits)
qed

lemma step_keys:
  "keys_are_names (formal (sets w g)) \<Longrightarrow> keys_are_names (formal (sets (state_of (step f x w)) g))"
  by (cases x)
    (simp_all add: Var_keys Set_keys
      ConfigSet_BoolVar_def ConfigSet_Bool_def newBoolValue_def new_bool_def
      ConfigSet_IntVar_def ConfigSet_Int_def newIntValue_def new_int_def
      ConfigSet_Int64Var_def ConfigSet_Int64_def newInt64Value_def new_int64_def
      ConfigSet_UintVar_def ConfigSet_Uint_def newUintValue_def new_uint_def
      ConfigSet_Uint64Var_def ConfigSet_Uint64_def newUint64Value_def new_uint64_def
      ConfigSet_StringVar_def ConfigSet_String_def newStringValue_def new_string_def
      ConfigSet_Float64Var_def ConfigSet_Float64_def newFloat64Value_def new_float64_def
      ConfigSet_DurationVar_def ConfigSet_Duration_def newDurationValue_def new_duration_def)

lemma run_keys:
  "keys_are_names (formal (sets w g)) \<Longrightarrow> keys_are_names (formal (sets (state_of (run f xs w)) g))"
proof (induction xs arbitrary: w)
  case Nil
  then show ?case by (simp add: state_of_def)
next
  case (Cons x xs)
  have k: "keys_are_names (formal (sets (state_of (step f x w)) g))"
    by (rule step_keys [OF Cons.prems])
  show ?case
  proof (cases "step f x w")
    case (Panic msg w')
    with k show ?thesis by (simp add: state_of_def)
  next
    case (Return u w')
    with k have "keys_are_names (formal (sets w' g))" by (simp add: state_of_def)
    from Cons.IH [OF this] Return show ?thesis by simp
  qed
qed


subsection \<open>Rendering a value and parsing it again\<close>

text \<open>
  For a bool and for the four integer types, the text that \<open>String\<close> renders is accepted
  by \<open>Set\<close> and stores the value that was there: the variables are unchanged. The
  renderings of a \<^verbatim>\<open>float64\<close> and of a duration are produced and parsed by library
  functions that compute in floating point; they are parameters here, and nothing is
  stated about them.
\<close>

lemma ParseBool_FormatBool: "ParseBool (FormatBool b) = (b, None)"
  by (cases b) (simp_all add: ParseBool_def FormatBool_def)

lemma bool_round_trip:
  "Value_Set (boolValue p) (Value_String (boolValue p) h) h = (None, h)"
  by (simp add: boolValue_def boolValue_Set_def boolValue_String_def ParseBool_FormatBool)

lemma byte_digit: "(d::nat) < 10 \<Longrightarrow> byte (char_of (48 + d)) = 48 + d"
  by (simp add: byte_def)

lemma is_digit_digit: "(d::nat) < 10 \<Longrightarrow> is_digit (char_of (48 + d))"
  by (simp add: is_digit_def byte_digit)

lemma digit_not_underscore: "(d::nat) < 10 \<Longrightarrow> char_of (48 + d) \<noteq> CHR ''_''"
proof
  assume "d < 10" and "char_of (48 + d) = CHR ''_''"
  then have "byte (char_of (48 + d)) = byte (CHR ''_'')" by simp
  with \<open>d < 10\<close> show False by (simp add: byte_digit) (simp add: byte_def)
qed

lemma ParseUint_loop_digit:
  assumes "d < 10" and "n * 10 + d < 2 ^ 64"
  shows "ParseUint_loop 10 True (maxUint64 div 10 + 1) (2 ^ 64 - 1) (char_of (48 + d) # cs) n us
         = ParseUint_loop 10 True (maxUint64 div 10 + 1) (2 ^ 64 - 1) cs (n * 10 + d) us"
proof -
  from assms have "\<not> n \<ge> maxUint64 div 10 + 1"
    by (simp add: maxUint64_def)
  with assms show ?thesis
    by (simp add: digit_not_underscore is_digit_digit byte_digit)
qed

lemma ParseUint_loop_formatBits:
  "u < 2 ^ 64 \<Longrightarrow>
   ParseUint_loop 10 True (maxUint64 div 10 + 1) (2 ^ 64 - 1) (formatBits u @ rest) 0 us
     = ParseUint_loop 10 True (maxUint64 div 10 + 1) (2 ^ 64 - 1) rest u us"
proof (induction u arbitrary: rest rule: formatBits.induct)
  case (1 u)
  show ?case
  proof (cases "u < 10")
    case True
    with "1.prems" ParseUint_loop_digit [of u 0 rest us] show ?thesis
      by (simp del: ParseUint_loop.simps)
  next
    case False
    have lt: "u div 10 < 2 ^ 64" using "1.prems" by simp
    have d: "u mod 10 < 10" by simp
    have e: "(u div 10) * 10 + u mod 10 = u" by simp
    have "formatBits u @ rest = formatBits (u div 10) @ (char_of (48 + u mod 10) # rest)"
      using False by (subst formatBits.simps) simp
    then have "ParseUint_loop 10 True (maxUint64 div 10 + 1) (2 ^ 64 - 1) (formatBits u @ rest) 0 us
        = ParseUint_loop 10 True (maxUint64 div 10 + 1) (2 ^ 64 - 1)
            (char_of (48 + u mod 10) # rest) (u div 10) us"
      using "1.IH" [OF False lt] by (simp del: ParseUint_loop.simps formatBits.simps)
    also have "\<dots> = ParseUint_loop 10 True (maxUint64 div 10 + 1) (2 ^ 64 - 1) rest u us"
      using ParseUint_loop_digit [OF d, of "u div 10" rest us] "1.prems" e
      by (simp del: ParseUint_loop.simps)
    finally show ?thesis .
  qed
qed


lemma formatBits_0: "formatBits 0 = ''0''"
  by code_simp

lemma formatBits_not_Nil: "formatBits u \<noteq> []"
  by (subst formatBits.simps) simp

lemma hd_formatBits:
  "0 < u \<Longrightarrow> \<exists>d::nat. 0 < d \<and> d < 10 \<and> hd (formatBits u) = char_of (48 + d)"
proof (induction u rule: formatBits.induct)
  case (1 u)
  show ?case
  proof (cases "u < 10")
    case True
    with "1.prems" show ?thesis by (subst formatBits.simps) auto
  next
    case False
    then have "0 < u div 10" by simp
    from "1.IH" [OF False this] obtain d :: nat where
      d: "0 < d" "d < 10" "hd (formatBits (u div 10)) = char_of (48 + d)" by blast
    have "hd (formatBits u) = hd (formatBits (u div 10))"
      using False formatBits_not_Nil [of "u div 10"] by (subst formatBits.simps) simp
    with d show ?thesis by (auto simp del: formatBits.simps)
  qed
qed

lemma digit_chars:
  assumes "(d::nat) < 10"
  shows "char_of (48 + d) \<noteq> CHR ''+''" and "char_of (48 + d) \<noteq> CHR ''-''"
    and "0 < d \<Longrightarrow> char_of (48 + d) \<noteq> CHR ''0''"
proof -
  have b: "byte (char_of (48 + d)) = 48 + d" using assms by (rule byte_digit)
  show "char_of (48 + d) \<noteq> CHR ''+''"
  proof
    assume "char_of (48 + d) = CHR ''+''"
    then have "byte (char_of (48 + d)) = byte (CHR ''+'')" by simp
    with b show False by (simp add: byte_def)
  qed
  show "char_of (48 + d) \<noteq> CHR ''-''"
  proof
    assume "char_of (48 + d) = CHR ''-''"
    then have "byte (char_of (48 + d)) = byte (CHR ''-'')" by simp
    with b show False by (simp add: byte_def)
  qed
  show "char_of (48 + d) \<noteq> CHR ''0''" if "0 < d"
  proof
    assume "char_of (48 + d) = CHR ''0''"
    then have "byte (char_of (48 + d)) = byte (CHR ''0'')" by simp
    with b that show False by (simp add: byte_def)
  qed
qed

lemma ParseUint_formatBits:
  assumes "u < 2 ^ 64"
  shows "ParseUint (formatBits u) 0 64 = (of_nat u, None)"
proof (cases "u = 0")
  case True
  then show ?thesis
    by (simp add: formatBits_0 ParseUint_def lower_def byte_def del: formatBits.simps)
next
  case False
  then obtain d :: nat where d: "0 < d" "d < 10" "hd (formatBits u) = char_of (48 + d)"
    using hd_formatBits [of u] by (auto simp del: formatBits.simps)
  then have z: "hd (formatBits u) \<noteq> CHR ''0''"
    using digit_chars(3) [of d] by simp
  have l: "ParseUint_loop 10 True (maxUint64 div 10 + 1) (2 ^ 64 - 1) (formatBits u) 0 False
      = Inl (u, False)"
    using ParseUint_loop_formatBits [OF assms, of "[]" False] by simp
  show ?thesis
    unfolding ParseUint_def using z l formatBits_not_Nil [of u]
    by (simp del: formatBits.simps ParseUint_loop.simps)
qed

lemma uint_round_trip: "ParseUint (FormatUint i) 0 64 = (i, None)"
proof -
  have "unat i < 2 ^ 64" using unsigned_less [of i, where ?'a = nat] by simp
  from ParseUint_formatBits [OF this] show ?thesis
    by (simp add: FormatUint_def)
qed

lemma int_round_trip: "ParseInt (FormatInt i) 0 64 = (i, None)"
proof (cases "sint i < 0")
  case True
  let ?m = "nat (- sint i)"
  have lo: "- (2 ^ 63) \<le> sint i" using sint_ge [of i] by simp
  with True have m: "0 < ?m" "?m \<le> 2 ^ 63" by simp_all
  then have "?m < 2 ^ 64" by simp
  from ParseUint_formatBits [OF this]
  have p: "ParseUint (formatBits ?m) 0 64 = (of_nat ?m, None)" .
  have w: "(of_nat ?m :: 64 word) = - i"
    using True by simp
  have u: "unat (- i) = ?m"
  proof -
    have "unat (of_nat ?m :: 64 word) = ?m"
      using \<open>?m < 2 ^ 64\<close> by (simp add: unat_of_nat)
    with w show ?thesis by simp
  qed
  show ?thesis
    using True m u
    by (simp add: FormatInt_def ParseInt_def p w del: formatBits.simps)
next
  case False
  let ?m = "nat (sint i)"
  have hi: "sint i < 2 ^ 63" using sint_lt [of i] by simp
  with False have m: "?m < 2 ^ 63" by simp
  then have "?m < 2 ^ 64" by simp
  from ParseUint_formatBits [OF this]
  have p: "ParseUint (formatBits ?m) 0 64 = (of_nat ?m, None)" .
  have w: "(of_nat ?m :: 64 word) = i"
    using False by simp
  have u: "unat i = ?m"
  proof -
    have "unat (of_nat ?m :: 64 word) = ?m"
      using \<open>?m < 2 ^ 64\<close> by (simp add: unat_of_nat)
    with w show ?thesis by simp
  qed
  have h: "hd (formatBits ?m) \<noteq> CHR ''+'' \<and> hd (formatBits ?m) \<noteq> CHR ''-''"
  proof (cases "?m = 0")
    case True
    then show ?thesis by (simp add: formatBits_0 del: formatBits.simps)
  next
    case F: False
    then obtain d :: nat where "d < 10" "hd (formatBits ?m) = char_of (48 + d)"
      using hd_formatBits [of ?m] by (auto simp del: formatBits.simps)
    then show ?thesis using digit_chars(1,2) [of d] by simp
  qed
  show ?thesis
    using False m u h formatBits_not_Nil [of ?m]
    by (simp add: FormatInt_def ParseInt_def p w del: formatBits.simps)
qed

lemma integer_values_round_trip:
  "Value_Set (intValue p) (Value_String (intValue p) h) h = (None, h)"
  "Value_Set (int64Value p) (Value_String (int64Value p) h) h = (None, h)"
  "Value_Set (uintValue p) (Value_String (uintValue p) h) h = (None, h)"
  "Value_Set (uint64Value p) (Value_String (uint64Value p) h) h = (None, h)"
  by (simp_all add: intValue_def intValue_Set_def intValue_String_def Itoa_def
      int64Value_def int64Value_Set_def int64Value_String_def
      uintValue_def uintValue_Set_def uintValue_String_def
      uint64Value_def uint64Value_Set_def uint64Value_String_def
      int_round_trip uint_round_trip)


subsection \<open>Save\<close>

text \<open>
  Claim C1 says that \<open>f.Save()\<close> writes one line for each binding of the \<open>formal\<close> map of
  \<open>f\<close> itself. The code writes the bindings of \<open>Configuration\<close> instead (lemma
  \<open>Save_writes_Configuration\<close>). In the state below, \<open>f\<close> is a second config set with the file
  \<open>x.conf\<close> and the one bool config \<open>a\<close>, and \<open>Configuration\<close> has the one string config
  \<open>g\<close>: \<open>f.Save()\<close> writes the line of \<open>g\<close> to \<open>x.conf\<close> and no line for \<open>a\<close>.
\<close>

theorem C1_Save_writes_Configuration_not_f:
  "(case NewConfigSet ''x.conf'' world0 of
      (f, w1) \<Rightarrow>
        (case ConfigSet_BoolVar f 0 ''a'' True ''ua'' w1 of
           Panic _ _ \<Rightarrow> False
         | Return _ w2 \<Rightarrow>
             (case ConfigSet_StringVar Configuration 0 ''g'' ''global'' ''ug'' w2 of
                Panic _ _ \<Rightarrow> False
              | Return _ w3 \<Rightarrow>
                  (case ConfigSet_Save f w3 of
                     Panic _ _ \<Rightarrow> False
                   | Return _ w4 \<Rightarrow>
                       f \<noteq> Configuration
                       \<and> filename (sets w3 f) = ''x.conf''
                       \<and> map fst (formal (sets w3 f)) = [''a'']
                       \<and> map fst (formal (sets w3 Configuration)) = [''g'']
                       \<and> fs w4 ''x.conf'' = Regular ''g=global # ug\<newline>''))))"
  by (simp add: NewConfigSet_def world0_def Configuration_def ConfigSet_BoolVar_def
      newBoolValue_def ConfigSet_Var_def ConfigSet_StringVar_def newStringValue_def
      ConfigSet_Save_def Printf_def os_Create_def VisitAll_def ConfigSet_VisitAll_def
      sortConfigs_def Save_visitor_def Fprintf_def heap0_def
      boolValue_def boolValue_String_def FormatBool_def stringValue_def stringValue_String_def)


subsection \<open>Set with a text the binding cannot parse\<close>

text \<open>
  Claim C2, as amended. For every config set, every name registered in \<open>formal\<close> and
  every text on which the parse of the binding fails, \<open>Set(name, text)\<close> returns that
  error and changes nothing but the variables: \<open>formal\<close> and \<open>actual\<close> are as before. The
  bound variable is not preserved: it holds what the parse stored together with the
  error, which for a bool binding is \<open>false\<close>.
\<close>

theorem C2_Set_invalid_text:
  assumes "ConfigSet_Lookup f name w = Some c"
    and "Value_Set (Value c) s (mem w) = (Some e, h)"
  shows "ConfigSet_Set f name s w = Return (Some e) (w\<lparr>mem := h\<rparr>)
         \<and> (\<forall>p. Value c = boolValue p \<longrightarrow> h = (mem w)\<lparr>bools := (bools (mem w))(p := False)\<rparr>)"
proof -
  from assms(1) have "map_of (formal (sets w f)) name = Some c"
    by (simp add: ConfigSet_Lookup_def)
  from Set_registered [OF this, of s] assms(2)
  have "ConfigSet_Set f name s w = Return (Some e) (w\<lparr>mem := h\<rparr>)"
    by simp
  moreover have "\<forall>p. Value c = boolValue p \<longrightarrow> h = (mem w)\<lparr>bools := (bools (mem w))(p := False)\<rparr>"
    using assms(2) by (auto dest: boolValue_Set_error)
  ultimately show ?thesis by simp
qed

text \<open>The theorem for the bool config \<open>b\<close> and the text \<open>maybe\<close>.\<close>

theorem C2_Set_invalid_text_witness:
  "ConfigSet_Lookup Configuration ''b''
      (state_of (ConfigSet_BoolVar Configuration 0 ''b'' True ''u'' world0))
     = Some \<lparr>Name = ''b'', Usage = ''u'', Value = boolValue 0, DefValue = ''true''\<rparr>
   \<and> ConfigSet_Set Configuration ''b'' ''maybe''
        (state_of (ConfigSet_BoolVar Configuration 0 ''b'' True ''u'' world0))
     = Return (Some (NumError ''ParseBool'' ''maybe'' ErrSyntax))
         ((state_of (ConfigSet_BoolVar Configuration 0 ''b'' True ''u'' world0))
            \<lparr>mem := heap0\<lparr>bools := (bools heap0)(0 := False)\<rparr>\<rparr>)"
proof -
  let ?w = "state_of (ConfigSet_BoolVar Configuration 0 ''b'' True ''u'' world0)"
  let ?c = "\<lparr>Name = ''b'', Usage = ''u'', Value = boolValue 0, DefValue = ''true''\<rparr>"
  have l: "ConfigSet_Lookup Configuration ''b'' ?w = Some ?c"
    by (simp add: BoolVar_world0 state_of_def ConfigSet_Lookup_def)
  have m: "mem ?w = heap0\<lparr>bools := (bools heap0)(0 := True)\<rparr>"
    by (simp add: BoolVar_world0 state_of_def)
  have p: "Value_Set (Value ?c) ''maybe'' (mem ?w)
      = (Some (NumError ''ParseBool'' ''maybe'' ErrSyntax), heap0\<lparr>bools := (bools heap0)(0 := False)\<rparr>)"
    by (simp add: m boolValue_def boolValue_Set_def ParseBool_def)
  show ?thesis
    using l C2_Set_invalid_text [OF l p] by simp
qed

text \<open>
  The claim as first stated fails: \<open>b\<close> holds true, \<open>Set("b", "maybe")\<close> returns the error,
  and \<open>b\<close> holds false afterwards.
\<close>

theorem C2_counterexample:
  "(case ConfigSet_BoolVar Configuration 0 ''b'' True ''u'' world0 of
      Panic _ _ \<Rightarrow> False
    | Return _ w1 \<Rightarrow>
        (case ConfigSet_Set Configuration ''b'' ''maybe'' w1 of
           Panic _ _ \<Rightarrow> False
         | Return err w2 \<Rightarrow>
             err = Some (NumError ''ParseBool'' ''maybe'' ErrSyntax)
             \<and> Value_Get (boolValue 0) (mem w1) = GoBool True
             \<and> Value_Get (boolValue 0) (mem w2) = GoBool False))"
  by (simp add: BoolVar_world0 ConfigSet_Set_def boolValue_def boolValue_Set_def ParseBool_def
      boolValue_Get_def heap0_def)


subsection \<open>The command-line scenario\<close>

text \<open>
  Claim C3. With a bool config \<open>b\<close> (default false), an int config \<open>n\<close> (default 0) and a
  string config \<open>s\<close> (default empty), parsing the arguments \<open>-b -n=42 -s hello -- pos1 pos2\<close>
  sets \<open>b\<close> to true without taking a following token, \<open>n\<close> to 42 and \<open>s\<close> to \<open>hello\<close>, and
  leaves exactly the positional arguments \<open>pos1\<close> and \<open>pos2\<close>: parsing stops at \<open>--\<close>, which
  is consumed.
\<close>

theorem C3_command_line_scenario:
  "(case ConfigSet_Bool Configuration ''b'' False ''ub'' world0 of
      Panic _ _ \<Rightarrow> False
    | Return pb w1 \<Rightarrow>
        (case ConfigSet_Int Configuration ''n'' 0 ''un'' w1 of
           Panic _ _ \<Rightarrow> False
         | Return pn w2 \<Rightarrow>
             (case ConfigSet_String Configuration ''s'' [] ''us'' w2 of
                Panic _ _ \<Rightarrow> False
              | Return ps w3 \<Rightarrow>
                  (case Parse Configuration
                          [''-b'', ''-n=42'', ''-s'', ''hello'', ''--'', ''pos1'', ''pos2''] w3 of
                     Panic _ _ \<Rightarrow> False
                   | Return r w4 \<Rightarrow>
                       bools (mem w3) pb = False \<and> ints (mem w3) pn = 0 \<and> strings (mem w3) ps = []
                       \<and> r = (None, [''pos1'', ''pos2''])
                       \<and> bools (mem w4) pb = True
                       \<and> ints (mem w4) pn = 42
                       \<and> strings (mem w4) ps = ''hello''))))"
  by (simp add: ConfigSet_Bool_def ConfigSet_BoolVar_def new_bool_def newBoolValue_def
      ConfigSet_Int_def ConfigSet_IntVar_def new_int_def newIntValue_def
      ConfigSet_String_def ConfigSet_StringVar_def new_string_def newStringValue_def
      ConfigSet_Var_def world0_sets world0_mem heap0_def
      flag_name_value_def is_boolean_binding_def ConfigSet_Lookup_def ConfigSet_Set_def
      boolValue_def boolValue_String_def boolValue_Set_def boolValue_Get_def
      intValue_def intValue_String_def intValue_Set_def intValue_Get_def
      stringValue_def stringValue_String_def stringValue_Set_def stringValue_Get_def
      ParseBool_def FormatBool_def ParseInt_42 Itoa_def FormatInt_def)


subsection \<open>The lines of the file\<close>

text \<open>
  Claim C4, as amended. For every line that \<open>Load\<close> processes, the part before the first
  \<open>#\<close> is split at every \<open>=\<close>. If it has exactly one \<open>=\<close>, the two parts are trimmed of
  surrounding white space, all leading and all trailing double quotes are removed from
  the value (it neither starts nor ends with one afterwards), and \<open>Set(key, value)\<close> is
  called, its error, if any, being printed. Every other line, with no \<open>=\<close> or with more
  than one, is ignored.
\<close>

theorem C4_Load_body_one_equals_sign:
  "Load_body f line w =
     (case line_key_value line of
        None \<Rightarrow> Return () w
      | Some (key, val) \<Rightarrow> after_Set (ConfigSet_Set f key val w))
   \<and> (case line_key_value line of
        None \<Rightarrow> count_list (strip_comment line) (CHR ''='') \<noteq> 1
      | Some (key, val) \<Rightarrow>
          count_list (strip_comment line) (CHR ''='') = 1
          \<and> key = TrimSpace (takeWhile (\<lambda>c. c \<noteq> CHR ''='') (strip_comment line))
          \<and> val = Trim (TrimSpace (tl (dropWhile (\<lambda>c. c \<noteq> CHR ''='') (strip_comment line))))
                  (CHR 0x22)
          \<and> (val = [] \<or> (hd val \<noteq> CHR 0x22 \<and> last val \<noteq> CHR 0x22)))"
proof -
  let ?v = "TrimSpace (tl (dropWhile (\<lambda>c. c \<noteq> CHR ''='') (strip_comment line)))"
  have "case line_key_value line of
        None \<Rightarrow> count_list (strip_comment line) (CHR ''='') \<noteq> 1
      | Some (key, val) \<Rightarrow>
          count_list (strip_comment line) (CHR ''='') = 1
          \<and> key = TrimSpace (takeWhile (\<lambda>c. c \<noteq> CHR ''='') (strip_comment line))
          \<and> val = Trim ?v (CHR 0x22)
          \<and> (val = [] \<or> (hd val \<noteq> CHR 0x22 \<and> last val \<noteq> CHR 0x22))"
    using Trim_ends [of ?v "CHR 0x22"]
    by (simp add: line_key_value_def Let_def)
  with Load_body_key_value [of f line w] show ?thesis by simp
qed

text \<open>
  The claim as first stated fails. The line \<open>a=b=c\<close> has an \<open>=\<close> and splitting it at the
  first one gives the key \<open>a\<close> and the value \<open>b=c\<close>, but \<open>Load\<close> ignores the line. The value
  of the line \<open>k=""v""\<close> without one layer of quotes is \<open>"v"\<close>, but \<open>Load\<close> sets \<open>k\<close> to \<open>v\<close>.
\<close>

theorem C4_counterexample:
  "Load_body Configuration ''a=b=c'' world0 = Return () world0
   \<and> spec_key_value ''a=b=c'' = Some (''a'', ''b=c'')
   \<and> (case Load_body Configuration [CHR ''k'', CHR ''='', CHR 0x22, CHR 0x22, CHR ''v'', CHR 0x22, CHR 0x22] world0 of
         Panic _ _ \<Rightarrow> False
       | Return _ w \<Rightarrow> map_option DefValue (ConfigSet_Lookup Configuration ''k'' w) = Some ''v'')
   \<and> spec_key_value [CHR ''k'', CHR ''='', CHR 0x22, CHR 0x22, CHR ''v'', CHR 0x22, CHR 0x22]
       = Some (''k'', [CHR 0x22, CHR ''v'', CHR 0x22])"
proof -
  have 1: "Load_body Configuration ''a=b=c'' world0 = Return () world0"
    by (simp add: Load_body_key_value kv3)
  have 2: "case Load_body Configuration [CHR ''k'', CHR ''='', CHR 0x22, CHR 0x22, CHR ''v'', CHR 0x22, CHR 0x22] world0 of
         Panic _ _ \<Rightarrow> False
       | Return _ w \<Rightarrow> map_option DefValue (ConfigSet_Lookup Configuration ''k'' w) = Some ''v''"
    by (simp add: Load_body_key_value kv4 Set_unregistered world0_sets after_Set_def
        Printf_def ConfigSet_Lookup_def)
  from 1 2 skv3 skv4 show ?thesis by simp
qed

subsection \<open>Set and the set of names actually set\<close>

text \<open>
  Claim C5, as amended. Whenever \<open>Set(name, text)\<close> returns success for a name that is
  registered in \<open>formal\<close>, the name is in \<open>actual\<close> afterwards, and \<open>NConfig\<close> counts it (the
  number of names in \<open>actual\<close>, whose keys are distinct). For a name that was not
  registered, \<open>Set\<close> registers it in \<open>formal\<close> and leaves \<open>actual\<close> as it was.
\<close>

theorem C5_Set_success_records_registered:
  assumes "ConfigSet_Set f name s w = Return None w'"
  shows "(name \<in> names (formal (sets w f)) \<longrightarrow>
            name \<in> names (actual (sets w' f))
            \<and> (distinct (map fst (actual (sets w f))) \<longrightarrow>
                 ConfigSet_NConfig f w' = card (names (actual (sets w' f)))))
         \<and> (name \<notin> names (formal (sets w f)) \<longrightarrow>
            name \<in> names (formal (sets w' f)) \<and> actual (sets w' f) = actual (sets w f))"
proof (cases "map_of (formal (sets w f)) name")
  case None
  then have "name \<notin> names (formal (sets w f))"
    by (simp add: map_of_None_names)
  moreover from assms have "name \<in> names (formal (sets w' f)) \<and> actual (sets w' f) = actual (sets w f)"
    unfolding Set_unregistered [OF None] by (auto simp: Printf_def names_update)
  ultimately show ?thesis by simp
next
  case (Some c)
  then have reg: "name \<in> names (formal (sets w f))"
    using map_of_None_names [of "formal (sets w f)" name] by simp
  obtain err h where vs: "Value_Set (Value c) s (mem w) = (err, h)"
    by (cases "Value_Set (Value c) s (mem w)")
  from assms have w': "w' = w\<lparr>mem := h, sets := (sets w)(f := (sets w f)\<lparr>actual :=
            AList.update name c (actual (sets w f))\<rparr>)\<rparr>"
    unfolding Set_registered [OF Some] using vs by (cases err) auto
  have "name \<in> names (actual (sets w' f))"
    by (simp add: w' names_update)
  moreover have "distinct (map fst (actual (sets w f))) \<longrightarrow>
                 ConfigSet_NConfig f w' = card (names (actual (sets w' f)))"
    by (simp add: w' ConfigSet_NConfig_def length_card_names distinct_update)
  ultimately show ?thesis using reg by simp
qed

text \<open>
  The theorem for the registered bool config \<open>b\<close> with the text \<open>true\<close>, and for the name
  \<open>x\<close> in the initial state.
\<close>

theorem C5_Set_success_witness:
  "ConfigSet_Set Configuration ''b'' ''true''
       (state_of (ConfigSet_BoolVar Configuration 0 ''b'' True ''u'' world0))
     = Return None (state_of (ConfigSet_Set Configuration ''b'' ''true''
         (state_of (ConfigSet_BoolVar Configuration 0 ''b'' True ''u'' world0))))
   \<and> ''b'' \<in> names (formal (sets (state_of (ConfigSet_BoolVar Configuration 0 ''b'' True ''u'' world0)) Configuration))
   \<and> distinct (map fst (actual (sets (state_of (ConfigSet_BoolVar Configuration 0 ''b'' True ''u'' world0)) Configuration)))
   \<and> ''b'' \<in> names (actual (sets (state_of (ConfigSet_Set Configuration ''b'' ''true''
         (state_of (ConfigSet_BoolVar Configuration 0 ''b'' True ''u'' world0)))) Configuration))
   \<and> ConfigSet_NConfig Configuration (state_of (ConfigSet_Set Configuration ''b'' ''true''
         (state_of (ConfigSet_BoolVar Configuration 0 ''b'' True ''u'' world0)))) = 1
   \<and> ConfigSet_Set Configuration ''x'' ''1'' world0
       = Return None (state_of (ConfigSet_Set Configuration ''x'' ''1'' world0))
   \<and> ''x'' \<notin> names (formal (sets world0 Configuration))
   \<and> ''x'' \<in> names (formal (sets (state_of (ConfigSet_Set Configuration ''x'' ''1'' world0)) Configuration))
   \<and> actual (sets (state_of (ConfigSet_Set Configuration ''x'' ''1'' world0)) Configuration) = []"
proof -
  let ?w1 = "state_of (ConfigSet_BoolVar Configuration 0 ''b'' True ''u'' world0)"
  let ?w2 = "state_of (ConfigSet_Set Configuration ''b'' ''true'' ?w1)"
  let ?w3 = "state_of (ConfigSet_Set Configuration ''x'' ''1'' world0)"
  have s1: "ConfigSet_Set Configuration ''b'' ''true'' ?w1 = Return None ?w2"
    by (simp add: BoolVar_world0 state_of_def ConfigSet_Set_def boolValue_def boolValue_Set_def
        ParseBool_def)
  have r1: "''b'' \<in> names (formal (sets ?w1 Configuration))"
    by (simp add: BoolVar_world0 state_of_def names_def)
  have a1: "actual (sets ?w1 Configuration) = []"
    by (simp add: BoolVar_world0 state_of_def world0_sets)
  have s3: "ConfigSet_Set Configuration ''x'' ''1'' world0 = Return None ?w3"
    by (simp add: Set_unregistered state_of_def world0_sets)
  have r3: "''x'' \<notin> names (formal (sets world0 Configuration))"
    by (simp add: names_def world0_sets)
  have a3: "actual (sets world0 Configuration) = []"
    by (simp add: world0_sets)
  from C5_Set_success_records_registered [OF s1] r1 a1
  have "''b'' \<in> names (actual (sets ?w2 Configuration))"
    and n: "ConfigSet_NConfig Configuration ?w2 = card (names (actual (sets ?w2 Configuration)))"
    by simp_all
  moreover have "ConfigSet_NConfig Configuration ?w2 = 1"
    unfolding n
    by (simp add: BoolVar_world0 state_of_def ConfigSet_Set_def boolValue_def boolValue_Set_def
        ParseBool_def names_def world0_sets)
  moreover from C5_Set_success_records_registered [OF s3] r3 a3
  have "''x'' \<in> names (formal (sets ?w3 Configuration))"
    and "actual (sets ?w3 Configuration) = []"
    by simp_all
  ultimately show ?thesis
    using s1 r1 a1 s3 r3 by simp
qed

text \<open>
  The claim as first stated fails: in the initial state \<open>Set("x", "1")\<close> succeeds, and \<open>x\<close>
  is not in \<open>actual\<close> and \<open>NConfig\<close> is 0.
\<close>

theorem C5_counterexample:
  "(case ConfigSet_Set Configuration ''x'' ''1'' world0 of
      Panic _ _ \<Rightarrow> False
    | Return err w \<Rightarrow>
        err = None
        \<and> ''x'' \<notin> names (actual (sets w Configuration))
        \<and> ConfigSet_NConfig Configuration w = 0
        \<and> ''x'' \<in> names (formal (sets w Configuration)))"
  by (simp add: Set_unregistered world0_sets Printf_def names_def ConfigSet_NConfig_def)


subsection \<open>Set on a name that is not registered\<close>

text \<open>
  Claim C6. For every config set and every name that is not registered in \<open>formal\<close>,
  \<open>Set(name, text)\<close> returns success for any text, and afterwards \<open>Lookup\<close> finds a new
  string-typed binding with that name whose stored value and whose default-value text
  are both the given text.
\<close>

theorem C6_Set_unregistered_registers_string:
  assumes "ConfigSet_Lookup f name w = None"
  shows "\<exists>w' c. ConfigSet_Set f name s w = Return None w'
           \<and> ConfigSet_Lookup f name w' = Some c
           \<and> Name c = name
           \<and> Value c = stringValue (brk (mem w))
           \<and> Value_Get (Value c) (mem w') = GoString s
           \<and> Value_String (Value c) (mem w') = s
           \<and> DefValue c = s"
proof -
  from assms have un: "map_of (formal (sets w f)) name = None"
    by (simp add: ConfigSet_Lookup_def)
  show ?thesis
    unfolding Set_unregistered [OF un]
    by (simp add: ConfigSet_Lookup_def Printf_def update_conv' stringValue_def
        stringValue_Get_def stringValue_String_def)
qed

text \<open>The theorem at the initial state, for the name \<open>color\<close> and the text \<open>red\<close>.\<close>

theorem C6_Set_unregistered_witness:
  "ConfigSet_Lookup Configuration ''color'' world0 = None
   \<and> (\<exists>w' c. ConfigSet_Set Configuration ''color'' ''red'' world0 = Return None w'
           \<and> ConfigSet_Lookup Configuration ''color'' w' = Some c
           \<and> Name c = ''color''
           \<and> Value c = stringValue (brk (mem world0))
           \<and> Value_Get (Value c) (mem w') = GoString ''red''
           \<and> Value_String (Value c) (mem w') = ''red''
           \<and> DefValue c = ''red'')"
proof -
  have h: "ConfigSet_Lookup Configuration ''color'' world0 = None"
    by (simp add: ConfigSet_Lookup_def world0_def NewConfigSet_def Configuration_def)
  show ?thesis
    using h C6_Set_unregistered_registers_string [OF h, of "''red''"] by blast
qed

subsection \<open>Registering a name twice\<close>

text \<open>
  Claim C8. Registering a binding with \<open>Var\<close> under a name that is already in \<open>formal\<close>
  panics: it does not return, and it neither ignores the call silently nor overwrites
  the existing binding (the config sets are as they were). Registering under a name that
  is not in \<open>formal\<close> never fails and inserts the binding.
\<close>

theorem C8_Var_duplicate_panics_fresh_inserts:
  "(ConfigSet_Lookup f name w \<noteq> None \<longrightarrow>
      (\<exists>msg w'. ConfigSet_Var f v name usage w = Panic msg w'
         \<and> sets w' = sets w \<and> mem w' = mem w \<and> fs w' = fs w))
   \<and> (ConfigSet_Lookup f name w = None \<longrightarrow>
      (\<exists>w'. ConfigSet_Var f v name usage w = Return () w'
         \<and> ConfigSet_Lookup f name w' =
             Some \<lparr>Name = name, Usage = usage, Value = v, DefValue = Value_String v (mem w)\<rparr>
         \<and> (\<forall>n. n \<noteq> name \<longrightarrow> ConfigSet_Lookup f n w' = ConfigSet_Lookup f n w)
         \<and> actual (sets w' f) = actual (sets w f)))"
proof (intro conjI impI)
  assume "ConfigSet_Lookup f name w \<noteq> None"
  then obtain c where "map_of (formal (sets w f)) name = Some c"
    by (auto simp: ConfigSet_Lookup_def)
  from Var_taken [OF this, of v usage]
  show "\<exists>msg w'. ConfigSet_Var f v name usage w = Panic msg w'
         \<and> sets w' = sets w \<and> mem w' = mem w \<and> fs w' = fs w"
    by (auto simp: Println_def Printf_def)
next
  assume "ConfigSet_Lookup f name w = None"
  then have "map_of (formal (sets w f)) name = None"
    by (simp add: ConfigSet_Lookup_def)
  from Var_fresh [OF this, of v usage]
  show "\<exists>w'. ConfigSet_Var f v name usage w = Return () w'
         \<and> ConfigSet_Lookup f name w' =
             Some \<lparr>Name = name, Usage = usage, Value = v, DefValue = Value_String v (mem w)\<rparr>
         \<and> (\<forall>n. n \<noteq> name \<longrightarrow> ConfigSet_Lookup f n w' = ConfigSet_Lookup f n w)
         \<and> actual (sets w' f) = actual (sets w f)"
    by (simp add: ConfigSet_Lookup_def update_conv')
qed

text \<open>
  The theorem at the initial state: \<open>b\<close> is registered, and registering \<open>b\<close> again panics.
\<close>

theorem C8_Var_witness:
  "ConfigSet_Lookup Configuration ''b'' world0 = None
   \<and> (\<exists>w'. ConfigSet_Var Configuration (boolValue 0) ''b'' ''u'' world0 = Return () w'
         \<and> ConfigSet_Lookup Configuration ''b'' w' =
             Some \<lparr>Name = ''b'', Usage = ''u'', Value = boolValue 0,
                   DefValue = Value_String (boolValue 0) (mem world0)\<rparr>)
   \<and> ConfigSet_Lookup Configuration ''b''
        (state_of (ConfigSet_Var Configuration (boolValue 0) ''b'' ''u'' world0)) \<noteq> None
   \<and> (\<exists>msg w'. ConfigSet_Var Configuration (intValue 0) ''b'' ''v''
          (state_of (ConfigSet_Var Configuration (boolValue 0) ''b'' ''u'' world0)) = Panic msg w'
         \<and> sets w' = sets (state_of (ConfigSet_Var Configuration (boolValue 0) ''b'' ''u'' world0)))"
proof -
  let ?w1 = "state_of (ConfigSet_Var Configuration (boolValue 0) ''b'' ''u'' world0)"
  have h0: "ConfigSet_Lookup Configuration ''b'' world0 = None"
    by (simp add: ConfigSet_Lookup_def world0_def NewConfigSet_def Configuration_def)
  have h1: "ConfigSet_Lookup Configuration ''b'' ?w1 \<noteq> None"
    using h0 C8_Var_duplicate_panics_fresh_inserts [of Configuration "''b''" world0 "boolValue 0" "''u''"]
    by (auto simp: state_of_def)
  show ?thesis
    using h0 h1
      C8_Var_duplicate_panics_fresh_inserts [of Configuration "''b''" world0 "boolValue 0" "''u''"]
      C8_Var_duplicate_panics_fresh_inserts [of Configuration "''b''" ?w1 "intValue 0" "''v''"]
    by blast
qed


subsection \<open>The names actually set are registered\<close>

text \<open>
  Claim C9. For every config set and every sequence of defining operations (\<open>Var\<close>, the
  typed \<open>XVar\<close> and \<open>X\<close>) and \<open>Set\<close> operations that starts from an empty set, the names in
  \<open>actual\<close> are a subset of the keys of \<open>formal\<close>. The sequence is any list, so the
  statement holds after every prefix, and also in the state a panic leaves.
\<close>

theorem C9_actual_subset_formal:
  assumes "formal (sets w f) = []" and "actual (sets w f) = []"
  shows "names (actual (sets (state_of (run f ops w)) f))
           \<subseteq> names (formal (sets (state_of (run f ops w)) f))"
proof -
  from assms have "actual_subset_formal f w"
    by (simp add: actual_subset_formal_def names_def)
  from run_inv [OF this, of f ops] show ?thesis
    by (simp add: actual_subset_formal_def)
qed

text \<open>
  The theorem for the program that defines the bool config \<open>b\<close>, sets it, sets the
  unknown name \<open>x\<close> and sets \<open>b\<close> to a text that does not parse.
\<close>

theorem C9_actual_subset_formal_witness:
  "formal (sets world0 Configuration) = [] \<and> actual (sets world0 Configuration) = []
   \<and> names (actual (sets (state_of (run Configuration
        [Op_BoolVar 0 ''b'' False ''u'', Op_Set ''b'' ''true'', Op_Set ''x'' ''1'', Op_Set ''b'' ''no'']
        world0)) Configuration)) = {''b''}
   \<and> names (formal (sets (state_of (run Configuration
        [Op_BoolVar 0 ''b'' False ''u'', Op_Set ''b'' ''true'', Op_Set ''x'' ''1'', Op_Set ''b'' ''no'']
        world0)) Configuration)) = {''b'', ''x''}
   \<and> names (actual (sets (state_of (run Configuration
        [Op_BoolVar 0 ''b'' False ''u'', Op_Set ''b'' ''true'', Op_Set ''x'' ''1'', Op_Set ''b'' ''no'']
        world0)) Configuration))
      \<subseteq> names (formal (sets (state_of (run Configuration
        [Op_BoolVar 0 ''b'' False ''u'', Op_Set ''b'' ''true'', Op_Set ''x'' ''1'', Op_Set ''b'' ''no'']
        world0)) Configuration))"
proof -
  let ?ops = "[Op_BoolVar 0 ''b'' False ''u'', Op_Set ''b'' ''true'', Op_Set ''x'' ''1'', Op_Set ''b'' ''no'']"
  have e: "formal (sets world0 Configuration) = []" "actual (sets world0 Configuration) = []"
    by (simp_all add: world0_sets)
  have r: "sets (state_of (run Configuration ?ops world0)) Configuration =
      \<lparr>filename = [], parsed = False,
       actual = [(''b'', \<lparr>Name = ''b'', Usage = ''u'', Value = boolValue 0, DefValue = ''false''\<rparr>)],
       formal = [(''b'', \<lparr>Name = ''b'', Usage = ''u'', Value = boolValue 0, DefValue = ''false''\<rparr>),
                 (''x'', \<lparr>Name = ''x'', Usage = [], Value = stringValue 0, DefValue = ''1''\<rparr>)]\<rparr>"
    by (simp add: ConfigSet_BoolVar_def newBoolValue_def ConfigSet_Var_def ConfigSet_Set_def
        ConfigSet_String_def ConfigSet_StringVar_def new_string_def newStringValue_def
        world0_sets world0_mem heap0_def discard_def state_of_def Printf_def
        boolValue_def boolValue_String_def boolValue_Set_def ParseBool_def FormatBool_def
        stringValue_def stringValue_String_def)
  show ?thesis
    using e C9_actual_subset_formal [OF e, of ?ops]
    unfolding r by (simp add: names_def)
qed


subsection \<open>Load after a line that fails\<close>

text \<open>
  Claim C10, as amended. \<open>Load\<close> always returns normally: it hands no error to its caller
  and does not panic. The lines before a line are processed, then the line, then all
  the lines after it. When \<open>Set\<close> fails on a line, the notice with the error is printed
  and the state is otherwise the one the earlier lines left, except for the variables
  that the failed parse wrote: \<open>formal\<close> and \<open>actual\<close> are unchanged, and the variable of
  the binding that the line names holds what the parse stored with the error, so an
  earlier assignment to that same binding is not kept.
\<close>

theorem C10_Load_continues_after_failure:
  "(\<exists>w'. ConfigSet_Load f w = Return () w')
   \<and> (\<exists>w1 w2. Load_loop f pre w = Return () w1
         \<and> Load_body f line w1 = Return () w2
         \<and> Load_loop f (pre @ line # post) w = Load_loop f post w2
         \<and> (\<forall>key val c e h.
               line_key_value line = Some (key, val)
               \<and> ConfigSet_Lookup f key w1 = Some c
               \<and> Value_Set (Value c) val (mem w1) = (Some e, h)
               \<longrightarrow> w2 = Printf [Text ''f.Set returned err='', ErrorV e, Text ''\<newline>'']
                          (w1\<lparr>mem := h\<rparr>)))"
proof -
  from Load_loop_returns obtain w1 where 1: "Load_loop f pre w = Return () w1" by blast
  from Load_body_returns obtain w2 where 2: "Load_body f line w1 = Return () w2" by blast
  have 3: "Load_loop f (pre @ line # post) w = Load_loop f post w2"
    by (simp add: Load_loop_append [OF 1] 2)
  have 4: "w2 = Printf [Text ''f.Set returned err='', ErrorV e, Text ''\<newline>''] (w1\<lparr>mem := h\<rparr>)"
    if "line_key_value line = Some (key, val)" "ConfigSet_Lookup f key w1 = Some c"
       "Value_Set (Value c) val (mem w1) = (Some e, h)" for key val c e h
    using Load_body_failing [OF that] 2 by simp
  from 1 2 3 4 Load_returns show ?thesis by blast
qed


text \<open>
  The theorem for the bool config \<open>b\<close> and the lines \<open>b = true\<close>, \<open>b = maybe\<close> and \<open>x = 1\<close>.
\<close>

theorem C10_Load_continues_witness:
  "line_key_value ''b = maybe'' = Some (''b'', ''maybe'')
   \<and> Load_loop Configuration [''b = true'']
        (state_of (ConfigSet_BoolVar Configuration 0 ''b'' False ''u'' world0))
       = Return () (state_of (Load_loop Configuration [''b = true'']
           (state_of (ConfigSet_BoolVar Configuration 0 ''b'' False ''u'' world0))))
   \<and> ConfigSet_Lookup Configuration ''b'' (state_of (Load_loop Configuration [''b = true'']
           (state_of (ConfigSet_BoolVar Configuration 0 ''b'' False ''u'' world0))))
       = Some \<lparr>Name = ''b'', Usage = ''u'', Value = boolValue 0, DefValue = ''false''\<rparr>
   \<and> Value_Set (boolValue 0) ''maybe'' (mem (state_of (Load_loop Configuration [''b = true'']
           (state_of (ConfigSet_BoolVar Configuration 0 ''b'' False ''u'' world0)))))
       = (Some (NumError ''ParseBool'' ''maybe'' ErrSyntax),
          (mem (state_of (Load_loop Configuration [''b = true'']
             (state_of (ConfigSet_BoolVar Configuration 0 ''b'' False ''u'' world0)))))
          \<lparr>bools := (bools (mem (state_of (Load_loop Configuration [''b = true'']
             (state_of (ConfigSet_BoolVar Configuration 0 ''b'' False ''u'' world0))))))(0 := False)\<rparr>)
   \<and> Load_loop Configuration [''b = true'', ''b = maybe'', ''x = 1'']
        (state_of (ConfigSet_BoolVar Configuration 0 ''b'' False ''u'' world0))
       = Load_loop Configuration [''x = 1'']
          (Printf [Text ''f.Set returned err='', ErrorV (NumError ''ParseBool'' ''maybe'' ErrSyntax),
                   Text ''\<newline>'']
            ((state_of (Load_loop Configuration [''b = true'']
               (state_of (ConfigSet_BoolVar Configuration 0 ''b'' False ''u'' world0))))
             \<lparr>mem := (mem (state_of (Load_loop Configuration [''b = true'']
                 (state_of (ConfigSet_BoolVar Configuration 0 ''b'' False ''u'' world0)))))
               \<lparr>bools := (bools (mem (state_of (Load_loop Configuration [''b = true'']
                 (state_of (ConfigSet_BoolVar Configuration 0 ''b'' False ''u'' world0))))))(0 := False)\<rparr>\<rparr>))"
proof -
  let ?wb = "state_of (ConfigSet_BoolVar Configuration 0 ''b'' False ''u'' world0)"
  let ?w1 = "state_of (Load_loop Configuration [''b = true''] ?wb)"
  let ?c = "\<lparr>Name = ''b'', Usage = ''u'', Value = boolValue 0, DefValue = ''false''\<rparr>"
  let ?e = "NumError ''ParseBool'' ''maybe'' ErrSyntax"
  let ?h = "(mem ?w1)\<lparr>bools := (bools (mem ?w1))(0 := False)\<rparr>"
  have a: "Load_loop Configuration [''b = true''] ?wb = Return () ?w1"
    using Load_loop_returns [of Configuration "[''b = true'']" ?wb]
    by (auto simp: state_of_def)
  have b: "ConfigSet_Lookup Configuration ''b'' ?w1 = Some ?c"
    by (simp add: BoolVar_False_world0 world0_sets state_of_def Load_body_key_value kv1
        ConfigSet_Set_def after_Set_def boolValue_def boolValue_Set_def ParseBool_def
        ConfigSet_Lookup_def)
  have c: "Value_Set (Value ?c) ''maybe'' (mem ?w1) = (Some ?e, ?h)"
    by (simp add: boolValue_def boolValue_Set_def ParseBool_def)
  from C10_Load_continues_after_failure [of Configuration ?wb "[''b = true'']" "''b = maybe''" "[''x = 1'']"]
  obtain w1 w2 where
    1: "Load_loop Configuration [''b = true''] ?wb = Return () w1"
    and 3: "Load_loop Configuration ([''b = true''] @ ''b = maybe'' # [''x = 1'']) ?wb
            = Load_loop Configuration [''x = 1''] w2"
    and 4: "\<forall>key val c e h.
               line_key_value ''b = maybe'' = Some (key, val)
               \<and> ConfigSet_Lookup Configuration key w1 = Some c
               \<and> Value_Set (Value c) val (mem w1) = (Some e, h)
               \<longrightarrow> w2 = Printf [Text ''f.Set returned err='', ErrorV e, Text ''\<newline>'']
                          (w1\<lparr>mem := h\<rparr>)"
    by blast
  from 1 a have w1: "w1 = ?w1" by simp
  from 4 kv2 b c have w2: "w2 = Printf [Text ''f.Set returned err='', ErrorV ?e, Text ''\<newline>'']
      (?w1\<lparr>mem := ?h\<rparr>)"
    unfolding w1 by blast
  from 3 have "Load_loop Configuration [''b = true'', ''b = maybe'', ''x = 1''] ?wb
      = Load_loop Configuration [''x = 1''] w2"
    by simp
  with kv2 a b c show ?thesis
    unfolding w2 by simp
qed


text \<open>
  The claim as first stated fails. With the file \<open>b = true\<close>, \<open>Load\<close> leaves \<open>b\<close> true. With
  the file \<open>b = true\<close>, \<open>b = maybe\<close>, the second line fails and \<open>b\<close> is false afterwards:
  the assignment of the first line is no longer in effect.
\<close>

theorem C10_counterexample:
  "(case ConfigSet_BoolVar Configuration 0 ''b'' False ''u'' (SetFile ''foo.conf'' world0) of
      Panic _ _ \<Rightarrow> False
    | Return _ w1 \<Rightarrow>
        (case ConfigSet_Load Configuration
                (w1\<lparr>fs := (fs w1)(''foo.conf'' := Regular ''b = true\<newline>'')\<rparr>) of
           Panic _ _ \<Rightarrow> False
         | Return _ w2 \<Rightarrow>
             (case ConfigSet_Load Configuration
                     (w1\<lparr>fs := (fs w1)(''foo.conf'' := Regular ''b = true\<newline>b = maybe\<newline>'')\<rparr>) of
                Panic _ _ \<Rightarrow> False
              | Return _ w3 \<Rightarrow>
                  Value_Get (boolValue 0) (mem w2) = GoBool True
                  \<and> Value_Get (boolValue 0) (mem w3) = GoBool False
                  \<and> map fst (actual (sets w3 Configuration)) = [''b''])))"
  by (simp add: BoolVar_False_world0 SetFile_def ConfigSet_Init_def world0_sets
      ConfigSet_Load_def Printf_def os_Open_def scan1 scan2 Load_body_key_value kv1 kv2
      ConfigSet_Set_def after_Set_def boolValue_def boolValue_Set_def boolValue_Get_def ParseBool_def
      del: Scan.simps)




end
